theory Spec2Isabelle
  imports Complex_Main "HOL-Library.Sublist"
begin

section \<open>The host: file system, process state, exceptions\<close>

text \<open>
  The functions of \<open>ceasiompy/utils/ceasiompyutils.py\<close> act on the process-wide working
  directory, on the file system and on the logger. The model threads one record, \<open>world\<close>,
  through them. A path is the list of its components from the root, in the canonical
  absolute form that \<open>os.getcwd()\<close> reports. A raised exception is a value of \<open>exn\<close>; a
  statement that may raise returns \<open>exn option\<close> (\<open>None\<close>: it completed) beside the world
  it leaves behind, an expression that may raise returns \<open>exn + value\<close>.
\<close>

type_synonym path = "string list"

datatype node = File string | Dir "string list" | Other

datatype exn =
    FileNotFoundError path
  | NotADirectoryError path
  | FileExistsError path
  | IsADirectoryError path
  | UnboundLocalError string
  | ValueError string
  | ImportError string
  | TypeError
  | Tixi3Exception string
  | SoftwareNotInstalled string
  | Exception string

text \<open>\<open>EnvironmentError\<close> is Python 3's alias of \<open>OSError\<close>; these are its subclasses.\<close>

fun is_EnvironmentError :: "exn \<Rightarrow> bool" where
  "is_EnvironmentError (FileNotFoundError _) = True"
| "is_EnvironmentError (NotADirectoryError _) = True"
| "is_EnvironmentError (FileExistsError _) = True"
| "is_EnvironmentError (IsADirectoryError _) = True"
| "is_EnvironmentError _ = False"

datatype event =
    LogInfo string
  | LogWarning string
  | ChdirCall path
  | ImportModule string
  | CallMain string path path
  | SubprocessCall "string list" "path option"

text \<open>
  \<open>cwd\<close> is \<open>None\<close> when the directory the process is in has been removed, where
  \<open>os.getcwd()\<close> raises. \<open>fs\<close> gives the node at a path; a directory holds the names of
  its entries in the order \<open>iterdir\<close> yields them. \<open>trace\<close> records, in order, the log
  records written and the calls made to \<open>os.chdir\<close>, \<open>importlib.import_module\<close>, a module's
  \<open>main\<close> and \<open>subprocess.call\<close> (with the working directory it ran in). The last three
  fields are what \<open>os.cpu_count()\<close>, \<open>sys.platform\<close> and \<open>shutil.which\<close> answer.
\<close>

record world =
  cwd :: "path option"
  fs :: "path \<Rightarrow> node option"
  trace :: "event list"
  cpu_count :: "int option"
  platform :: string
  which :: "string \<Rightarrow> path option"

type_synonym stmt = "world \<Rightarrow> exn option \<times> world"

definition emit :: "event \<Rightarrow> world \<Rightarrow> world" where
  "emit e w = w\<lparr>trace := trace w @ [e]\<rparr>"

definition log_info :: "string \<Rightarrow> world \<Rightarrow> world" where
  "log_info msg = emit (LogInfo msg)"

definition log_warning :: "string \<Rightarrow> world \<Rightarrow> world" where
  "log_warning msg = emit (LogWarning msg)"

definition is_dir :: "world \<Rightarrow> path \<Rightarrow> bool" where
  "is_dir w p = (case fs w p of Some (Dir _) \<Rightarrow> True | _ \<Rightarrow> False)"

definition is_file :: "world \<Rightarrow> path \<Rightarrow> bool" where
  "is_file w p = (case fs w p of Some (File _) \<Rightarrow> True | _ \<Rightarrow> False)"

definition exists_path :: "world \<Rightarrow> path \<Rightarrow> bool" where
  "exists_path w p = (fs w p \<noteq> None)"

definition getcwd :: "world \<Rightarrow> exn + path" where
  "getcwd w = (case cwd w of None \<Rightarrow> Inl (FileNotFoundError []) | Some d \<Rightarrow> Inr d)"

text \<open>
  \<open>os.chdir(p)\<close>: the call is recorded whether it succeeds or not; it succeeds exactly
  when \<open>p\<close> is a directory.
\<close>

definition chdir :: "path \<Rightarrow> stmt" where
  "chdir p w =
     (let w' = emit (ChdirCall p) w in
      case fs w p of
        None \<Rightarrow> (Some (FileNotFoundError p), w')
      | Some (Dir _) \<Rightarrow> (None, w'\<lparr>cwd := Some p\<rparr>)
      | Some _ \<Rightarrow> (Some (NotADirectoryError p), w'))"

section \<open>change_working_dir\<close>

text \<open>
  \<^verbatim>\<open>
  @contextmanager
  def change_working_dir(working_dir):
      try:
          cwd = os.getcwd()
          os.chdir(working_dir)
          yield
      finally:
          os.chdir(cwd)
  \<close>
  The \<open>finally\<close> clause runs with an outcome pending (the enclosed block finished, or
  something raised). An exception raised by the clause itself replaces the pending one.
  When \<open>os.getcwd()\<close> raised, the local \<open>cwd\<close> was never bound and the clause raises
  \<open>UnboundLocalError\<close> before it calls \<open>os.chdir\<close>.
\<close>

definition finally_chdir :: "path \<Rightarrow> exn option \<Rightarrow> stmt" where
  "finally_chdir cwd0 pending w =
     (case chdir cwd0 w of
        (Some e, w') \<Rightarrow> (Some e, w')
      | (None, w') \<Rightarrow> (pending, w'))"

definition change_working_dir :: "path \<Rightarrow> stmt \<Rightarrow> stmt" where
  "change_working_dir working_dir body w =
     (case getcwd w of
        Inl _ \<Rightarrow> (Some (UnboundLocalError ''cwd''), w)
      | Inr cwd0 \<Rightarrow>
          (case chdir working_dir w of
             (Some e, w1) \<Rightarrow> finally_chdir cwd0 (Some e) w1
           | (None, w1) \<Rightarrow>
               (case body w1 of (r, w2) \<Rightarrow> finally_chdir cwd0 r w2)))"

section \<open>get_reasonable_nb_cpu\<close>

text \<open>
  \<^verbatim>\<open>
  cpu_count = os.cpu_count()
  if cpu_count is None:
      return 1
  return math.ceil(cpu_count / 4)
  \<close>
  \<open>/\<close> is Python's true division. Dividing an integer by 4 only changes the exponent of
  its binary floating-point form, so the quotient is exact for every count a double holds
  exactly (below \<open>2^53\<close>), and the model takes the exact quotient. The function reads the
  host and returns an integer: it has no world to return and no exception to raise.
\<close>

definition get_reasonable_nb_cpu :: "world \<Rightarrow> int" where
  "get_reasonable_nb_cpu w =
     (case cpu_count w of
        None \<Rightarrow> 1
      | Some n \<Rightarrow> \<lceil>real_of_int n / 4\<rceil>)"

section \<open>Strings and path names\<close>

definition apostrophe :: char where
  "apostrophe = CHR 0x27"

text \<open>\<open>quoted s\<close> is the f-string fragment \<^verbatim>\<open>'{s}'\<close>.\<close>

definition quoted :: "string \<Rightarrow> string" where
  "quoted s = apostrophe # s @ [apostrophe]"

text \<open>
  \<open>s.split(sep)\<close> for a non-empty separator: the pieces between the occurrences of
  \<open>sep\<close>, found from the left and not overlapping. \<open>skip\<close> counts the characters of an
  occurrence still to be passed over, \<open>acc\<close> holds the current piece, reversed.
\<close>

fun split_aux :: "string \<Rightarrow> nat \<Rightarrow> string \<Rightarrow> string \<Rightarrow> string list" where
  "split_aux sep skip acc [] = [rev acc]"
| "split_aux sep skip acc (c # cs) =
     (if 0 < skip then split_aux sep (skip - 1) acc cs
      else if prefix sep (c # cs) then rev acc # split_aux sep (length sep - 1) [] cs
      else split_aux sep 0 (c # acc) cs)"

definition py_split :: "string \<Rightarrow> string \<Rightarrow> string list" where
  "py_split sep s = split_aux sep 0 [] s"

text \<open>The text of \<open>s\<close> before the first occurrence of \<open>sep\<close>; all of \<open>s\<close> when there is none.\<close>

fun before_first :: "string \<Rightarrow> string \<Rightarrow> string" where
  "before_first sep [] = []"
| "before_first sep (c # cs) = (if prefix sep (c # cs) then [] else c # before_first sep cs)"

text \<open>\<open>s.rfind(c)\<close>: the index of the last \<open>c\<close> in \<open>s\<close>, \<open>None\<close> for Python's \<open>-1\<close>.\<close>

fun rfind :: "char \<Rightarrow> string \<Rightarrow> nat option" where
  "rfind c [] = None"
| "rfind c (x # xs) =
     (case rfind c xs of
        Some i \<Rightarrow> Some (Suc i)
      | None \<Rightarrow> if x = c then Some 0 else None)"

text \<open>
  \<open>pathlib\<close> (as of Python 3.8, the version the file names): \<open>name\<close> is the last
  component; with \<open>i = name.rfind('.')\<close>, the suffix is
  \<open>name[i:]\<close> and the stem \<open>name[:i]\<close> when \<open>0 < i < len(name) - 1\<close>, otherwise the suffix
  is empty and the stem is the whole name.
\<close>

definition path_name :: "path \<Rightarrow> string" where
  "path_name p = (if p = [] then [] else last p)"

definition has_suffix :: "string \<Rightarrow> nat option" where
  "has_suffix nm =
     (case rfind CHR ''.'' nm of
        None \<Rightarrow> None
      | Some i \<Rightarrow> if 0 < i \<and> i + 1 < length nm then Some i else None)"

definition path_suffix :: "path \<Rightarrow> string" where
  "path_suffix p =
     (case has_suffix (path_name p) of None \<Rightarrow> [] | Some i \<Rightarrow> drop i (path_name p))"

definition path_stem :: "path \<Rightarrow> string" where
  "path_stem p =
     (case has_suffix (path_name p) of None \<Rightarrow> path_name p | Some i \<Rightarrow> take i (path_name p))"

text \<open>\<open>str(path)\<close> for an absolute path.\<close>

definition str_path :: "path \<Rightarrow> string" where
  "str_path p = (if p = [] then ''/'' else concat (map (\<lambda>c. ''/'' @ c) p))"

text \<open>\<open>str(n)\<close> for an integer.\<close>

definition digit_char :: "nat \<Rightarrow> char" where
  "digit_char d = char_of (48 + d)"

fun str_nat :: "nat \<Rightarrow> string" where
  "str_nat n = (if n < 10 then [digit_char n] else str_nat (n div 10) @ [digit_char (n mod 10)])"

definition str_int :: "int \<Rightarrow> string" where
  "str_int i = (if i < 0 then ''-'' @ str_nat (nat (- i)) else str_nat (nat i))"

section \<open>The CPACS document\<close>

text \<open>
  The document library (\<open>cpacspy\<close>, TIXI) is not part of this repository. The functions
  here use five of its operations, modelled by their contract on a document that holds
  the string vectors stored at XPaths and the XPath of every element that has a uID:
  \<open>get_string_vector\<close> raises \<open>ValueError\<close> when no vector is stored at the XPath,
  \<open>create_branch\<close> makes the element exist, \<open>add_string_vector\<close> stores a vector,
  \<open>uIDGetXPath\<close> raises when the uID is unknown, and \<open>get_aeromap_uid_list\<close> lists the
  aeromaps of the document.
\<close>

record tixi_doc =
  elements :: "string set"
  vectors :: "string \<Rightarrow> string list option"
  uid_xpath :: "string \<Rightarrow> string option"

record cpacs =
  tixi :: tixi_doc
  aeromap_uids :: "string list"

definition get_string_vector :: "tixi_doc \<Rightarrow> string \<Rightarrow> exn + string list" where
  "get_string_vector t xpath =
     (case vectors t xpath of
        None \<Rightarrow> Inl (ValueError xpath)
      | Some v \<Rightarrow> Inr v)"

definition create_branch :: "tixi_doc \<Rightarrow> string \<Rightarrow> tixi_doc" where
  "create_branch t xpath = t\<lparr>elements := insert xpath (elements t)\<rparr>"

definition add_string_vector :: "tixi_doc \<Rightarrow> string \<Rightarrow> string list \<Rightarrow> tixi_doc" where
  "add_string_vector t xpath v =
     t\<lparr>elements := insert xpath (elements t), vectors := (vectors t)(xpath \<mapsto> v)\<rparr>"

definition uIDGetXPath :: "tixi_doc \<Rightarrow> string \<Rightarrow> exn + string" where
  "uIDGetXPath t uid =
     (case uid_xpath t uid of
        None \<Rightarrow> Inl (Tixi3Exception uid)
      | Some xpath \<Rightarrow> Inr xpath)"

definition get_aeromap_uid_list :: "cpacs \<Rightarrow> string list" where
  "get_aeromap_uid_list c = aeromap_uids c"

section \<open>get_aeromap_list_from_xpath\<close>

text \<open>
  \<^verbatim>\<open>
  aeromap_uid_list = []
  try:
      aeromap_uid_list = get_string_vector(cpacs.tixi, aeromap_to_analyze_xpath)
  except ValueError:
      if not empty_if_not_found:
          aeromap_uid_list = cpacs.get_aeromap_uid_list()
          create_branch(cpacs.tixi, aeromap_to_analyze_xpath)
          add_string_vector(cpacs.tixi, aeromap_to_analyze_xpath, aeromap_uid_list)
  return aeromap_uid_list
  \<close>
  The document is changed in place; the model returns it beside the list. Only
  \<open>ValueError\<close> is caught.
\<close>

definition get_aeromap_list_from_xpath ::
  "cpacs \<Rightarrow> string \<Rightarrow> bool \<Rightarrow> exn + (string list \<times> cpacs)" where
  "get_aeromap_list_from_xpath c aeromap_to_analyze_xpath empty_if_not_found =
     (case get_string_vector (tixi c) aeromap_to_analyze_xpath of
        Inr aeromap_uid_list \<Rightarrow> Inr (aeromap_uid_list, c)
      | Inl (ValueError _) \<Rightarrow>
          (if \<not> empty_if_not_found then
             (let aeromap_uid_list = get_aeromap_uid_list c;
                  t1 = create_branch (tixi c) aeromap_to_analyze_xpath;
                  t2 = add_string_vector t1 aeromap_to_analyze_xpath aeromap_uid_list
              in Inr (aeromap_uid_list, c\<lparr>tixi := t2\<rparr>))
           else Inr ([], c))
      | Inl e \<Rightarrow> Inl e)"

section \<open>get_part_type\<close>

text \<open>
  \<^verbatim>\<open>
  part_uid = part_uid.split("_mirrored")[0]
  part_xpath = tixi.uIDGetXPath(part_uid)
  if "wings/wing" in part_xpath:
      if print:
          log.info(f"'{part_uid}' is a wing")
      return "wing"
  elif "fuselages/fuselage" in part_xpath: ...
  ...
  if print:
      log.warning(f"'{part_uid}' cannot be categorized!")
  return None
  \<close>
  \<open>pat in s\<close> on strings is \<open>sublist pat s\<close>. The function returns the part type
  (\<open>None\<close> for Python's \<open>None\<close>) and the log records it wrote.
\<close>

definition said :: "bool \<Rightarrow> event \<Rightarrow> event list" where
  "said print e = (if print then [e] else [])"

definition get_part_type ::
  "tixi_doc \<Rightarrow> string \<Rightarrow> bool \<Rightarrow> exn + (string option \<times> event list)" where
  "get_part_type t part_uid0 print =
     (let part_uid = hd (py_split ''_mirrored'' part_uid0) in
      case uIDGetXPath t part_uid of
        Inl e \<Rightarrow> Inl e
      | Inr part_xpath \<Rightarrow>
          Inr
           (if sublist ''wings/wing'' part_xpath then
              (Some ''wing'', said print (LogInfo (quoted part_uid @ '' is a wing'')))
            else if sublist ''fuselages/fuselage'' part_xpath then
              (Some ''fuselage'', said print (LogInfo (quoted part_uid @ '' is a fuselage'')))
            else if sublist ''enginePylons/enginePylon'' part_xpath then
              (Some ''pylon'', said print (LogInfo (quoted part_uid @ '' is a pylon'')))
            else if sublist ''engine/nacelle/fanCowl'' part_xpath then
              (Some ''fanCowl'', said print (LogInfo (quoted part_uid @ '' is a fanCowl'')))
            else if sublist ''engine/nacelle/centerCowl'' part_xpath then
              (Some ''centerCowl'', said print (LogInfo (quoted part_uid @ '' is a centerCowl'')))
            else if sublist ''engine/nacelle/coreCowl'' part_xpath then
              (Some ''coreCowl'', said print (LogInfo (quoted part_uid @ '' is a coreCowl'')))
            else if sublist ''vehicles/engines/engine'' part_xpath then
              (Some ''engine'', said print (LogInfo (quoted part_uid @ '' is an engine'')))
            else if sublist ''vehicles/rotorcraft/model/rotors/rotor'' part_xpath then
              (Some ''rotor'', said print (LogInfo (quoted part_uid @ '' is an rotor'')))
            else
              (None, said print (LogWarning (quoted part_uid @ '' cannot be categorized!'')))))"

text \<open>The patterns of the chain in its order, each with the type it returns.\<close>

definition part_patterns :: "(string \<times> string) list" where
  "part_patterns =
     [(''wings/wing'', ''wing''),
      (''fuselages/fuselage'', ''fuselage''),
      (''enginePylons/enginePylon'', ''pylon''),
      (''engine/nacelle/fanCowl'', ''fanCowl''),
      (''engine/nacelle/centerCowl'', ''centerCowl''),
      (''engine/nacelle/coreCowl'', ''coreCowl''),
      (''vehicles/engines/engine'', ''engine''),
      (''vehicles/rotorcraft/model/rotors/rotor'', ''rotor'')]"

definition first_match :: "string \<Rightarrow> string option" where
  "first_match part_xpath =
     map_option snd (find (\<lambda>(pat, ty). sublist pat part_xpath) part_patterns)"

section \<open>File-system operations\<close>

text \<open>
  \<open>Path.iterdir\<close> yields the entries of a directory as paths. \<open>os.unlink\<close> removes a
  file and its name from the directory that holds it; \<open>os.mkdir\<close> creates one directory
  under an existing parent; \<open>open(p, "w")\<close> creates the file or empties it.
\<close>

definition iterdir :: "world \<Rightarrow> path \<Rightarrow> exn + path list" where
  "iterdir w d =
     (case fs w d of
        None \<Rightarrow> Inl (FileNotFoundError d)
      | Some (Dir names) \<Rightarrow> Inr (map (\<lambda>n. d @ [n]) names)
      | Some _ \<Rightarrow> Inl (NotADirectoryError d))"

definition drop_entry :: "path \<Rightarrow> (path \<Rightarrow> node option) \<Rightarrow> (path \<Rightarrow> node option)" where
  "drop_entry p f =
     (case f (butlast p) of
        Some (Dir names) \<Rightarrow> (f(butlast p \<mapsto> Dir (removeAll (last p) names)))(p := None)
      | _ \<Rightarrow> f(p := None))"

definition add_entry :: "path \<Rightarrow> node \<Rightarrow> (path \<Rightarrow> node option) \<Rightarrow> (path \<Rightarrow> node option)" where
  "add_entry p n f =
     (case f (butlast p) of
        Some (Dir names) \<Rightarrow>
          (f(butlast p \<mapsto> Dir (if last p \<in> set names then names else names @ [last p])))
            (p \<mapsto> n)
      | _ \<Rightarrow> f(p \<mapsto> n))"

definition unlink :: "path \<Rightarrow> stmt" where
  "unlink p w =
     (case fs w p of
        None \<Rightarrow> (Some (FileNotFoundError p), w)
      | Some (Dir _) \<Rightarrow> (Some (IsADirectoryError p), w)
      | Some _ \<Rightarrow> (None, w\<lparr>fs := drop_entry p (fs w)\<rparr>))"

definition os_mkdir :: "path \<Rightarrow> stmt" where
  "os_mkdir p w =
     (if fs w p \<noteq> None then (Some (FileExistsError p), w)
      else case fs w (butlast p) of
             None \<Rightarrow> (Some (FileNotFoundError p), w)
           | Some (Dir _) \<Rightarrow> (None, w\<lparr>fs := add_entry p (Dir []) (fs w)\<rparr>)
           | Some _ \<Rightarrow> (Some (NotADirectoryError p), w))"

definition open_w :: "path \<Rightarrow> stmt" where
  "open_w p w =
     (case fs w p of
        Some (Dir _) \<Rightarrow> (Some (IsADirectoryError p), w)
      | Some (File _) \<Rightarrow> (None, w\<lparr>fs := (fs w)(p \<mapsto> File [])\<rparr>)
      | Some Other \<Rightarrow> (None, w)
      | None \<Rightarrow>
          (case fs w (butlast p) of
             None \<Rightarrow> (Some (FileNotFoundError p), w)
           | Some (Dir _) \<Rightarrow> (None, w\<lparr>fs := add_entry p (File []) (fs w)\<rparr>)
           | Some _ \<Rightarrow> (Some (NotADirectoryError p), w)))"

text \<open>
  \<open>pathlib.Path.mkdir\<close>:
  \<^verbatim>\<open>
  def mkdir(self, mode=0o777, parents=False, exist_ok=False):
      try:
          os.mkdir(self, mode)
      except FileNotFoundError:
          if not parents or self.parent == self:
              raise
          self.parent.mkdir(parents=True, exist_ok=True)
          self.mkdir(mode, parents=False, exist_ok=exist_ok)
      except OSError:
          if not exist_ok or not self.is_dir():
              raise
  \<close>
\<close>

function path_mkdir :: "bool \<Rightarrow> bool \<Rightarrow> path \<Rightarrow> stmt" where
  "path_mkdir parents exist_ok p w =
     (case os_mkdir p w of
        (None, w') \<Rightarrow> (None, w')
      | (Some (FileNotFoundError q), w') \<Rightarrow>
          (if \<not> parents \<or> p = [] then (Some (FileNotFoundError q), w')
           else case path_mkdir True True (butlast p) w' of
                  (Some e, w'') \<Rightarrow> (Some e, w'')
                | (None, w'') \<Rightarrow> path_mkdir False exist_ok p w'')
      | (Some e, w') \<Rightarrow>
          (if \<not> exist_ok \<or> \<not> is_dir w' p then (Some e, w') else (None, w')))"
  by pat_completeness auto
termination
  by (relation "measures [\<lambda>(parents, exist_ok, p, w). length p,
                          \<lambda>(parents, exist_ok, p, w). if parents then 1 else 0]") auto

declare path_mkdir.simps [simp del]

section \<open>The installed modules\<close>

text \<open>
  \<open>get_module_list\<close> (of \<open>moduleinterfaces\<close>), the modules' \<open>__specs__\<close> and their entry
  points live in other files of the package; here they are parameters. \<open>module_list\<close> is what
  \<open>get_module_list(only_active=False)\<close> returns. \<open>import_specs\<close> and \<open>import_main\<close> answer
  \<open>importlib.import_module\<close> for a dotted name: the import may raise, otherwise it gives the
  module's \<open>RESULTS_DIR\<close>, respectively its \<open>main(cpacs_in, cpacs_out)\<close>.
\<close>

datatype pure_path = Relative path | Absolute path

record installation =
  module_list :: "string list"
  import_specs :: "string \<Rightarrow> exn + pure_path"
  import_main :: "string \<Rightarrow> exn + (path \<Rightarrow> path \<Rightarrow> stmt)"

text \<open>\<open>Path(a, b)\<close>: an absolute \<open>b\<close> replaces \<open>a\<close>.\<close>

definition path_join :: "path \<Rightarrow> pure_path \<Rightarrow> path" where
  "path_join a b = (case b of Relative r \<Rightarrow> a @ r | Absolute r \<Rightarrow> r)"

section \<open>get_results_directory\<close>

text \<open>
  \<^verbatim>\<open>
  if module_name not in get_module_list(only_active=False):
      raise ValueError(f"Module '{module_name}' did not exit!")
  specs = importlib.import_module(f"ceasiompy.{module_name}.__specs__")
  results_dir = Path(Path.cwd(), specs.RESULTS_DIR)
  if not results_dir.is_dir():
      results_dir.mkdir(parents=True)
  return results_dir
  \<close>
\<close>

definition get_results_directory ::
  "installation \<Rightarrow> string \<Rightarrow> world \<Rightarrow> (exn + path) \<times> world" where
  "get_results_directory inst module_name w =
     (if module_name \<notin> set (module_list inst) then
        (Inl (ValueError (''Module '' @ quoted module_name @ '' did not exit!'')), w)
      else
        let dotted = ''ceasiompy.'' @ module_name @ ''.__specs__'';
            w1 = emit (ImportModule dotted) w
        in case import_specs inst dotted of
             Inl e \<Rightarrow> (Inl e, w1)
           | Inr RESULTS_DIR \<Rightarrow>
               (case getcwd w1 of
                  Inl e \<Rightarrow> (Inl e, w1)
                | Inr c \<Rightarrow>
                    (let results_dir = path_join c RESULTS_DIR in
                     if \<not> is_dir w1 results_dir then
                       (case path_mkdir True False results_dir w1 of
                          (Some e, w2) \<Rightarrow> (Inl e, w2)
                        | (None, w2) \<Rightarrow> (Inr results_dir, w2))
                     else (Inr results_dir, w1))))"

section \<open>run_module\<close>

text \<open>
  \<^verbatim>\<open>
  log.info("#" * 99)
  log.info("# Run module: " + module.name)
  log.info("#" * 99)
  log.info("Working directory: " + str(wkdir))
  log.info("CPACS input file: " + str(module.cpacs_in))
  log.info("CPACS output file: " + str(module.cpacs_out))
  if module.name == "Optimisation" and iteration > 0:
      log.info("Optimisation module is only run at first iteration!")
  else:
      for file in module.module_dir.iterdir():
          if file.name.endswith(".py") and not file.name.startswith("__"):
              python_file = file.stem
      my_module = importlib.import_module(f"ceasiompy.{module.name}.{python_file}")
      with change_working_dir(wkdir):
          my_module.main(module.cpacs_in, module.cpacs_out)
  \<close>
  The loop keeps the stem of the last entry that passes the test; when none does,
  \<open>python_file\<close> is unbound where the f-string reads it.
\<close>

record module_to_run =
  name :: string
  cpacs_in :: path
  cpacs_out :: path
  module_dir :: path

definition banner :: "module_to_run \<Rightarrow> path \<Rightarrow> world \<Rightarrow> world" where
  "banner m wkdir w =
     (let w = log_info (replicate 99 CHR ''#'') w;
          w = log_info (''# Run module: '' @ name m) w;
          w = log_info (replicate 99 CHR ''#'') w;
          w = log_info (''Working directory: '' @ str_path wkdir) w;
          w = log_info (''CPACS input file: '' @ str_path (cpacs_in m)) w;
          w = log_info (''CPACS output file: '' @ str_path (cpacs_out m)) w
      in w)"

fun find_python_file :: "path list \<Rightarrow> string option \<Rightarrow> string option" where
  "find_python_file [] python_file = python_file"
| "find_python_file (file # files) python_file =
     (if suffix ''.py'' (path_name file) \<and> \<not> prefix ''__'' (path_name file)
      then find_python_file files (Some (path_stem file))
      else find_python_file files python_file)"

text \<open>
  The test of the loop on \<open>file.name\<close>, by itself, to say which entry of a listing the
  loop ends with.
\<close>

definition entry_point_name :: "string \<Rightarrow> bool" where
  "entry_point_name nm = (suffix ''.py'' nm \<and> \<not> prefix ''__'' nm)"

definition run_module :: "installation \<Rightarrow> module_to_run \<Rightarrow> path \<Rightarrow> int \<Rightarrow> stmt" where
  "run_module inst m wkdir iteration w =
     (let w1 = banner m wkdir w in
      if name m = ''Optimisation'' \<and> iteration > 0 then
        (None, log_info ''Optimisation module is only run at first iteration!'' w1)
      else
        case iterdir w1 (module_dir m) of
          Inl e \<Rightarrow> (Some e, w1)
        | Inr files \<Rightarrow>
            (case find_python_file files None of
               None \<Rightarrow> (Some (UnboundLocalError ''python_file''), w1)
             | Some python_file \<Rightarrow>
                 (let dotted = ''ceasiompy.'' @ name m @ ''.'' @ python_file;
                      w2 = emit (ImportModule dotted) w1
                  in case import_main inst dotted of
                       Inl e \<Rightarrow> (Some e, w2)
                     | Inr main \<Rightarrow>
                         change_working_dir wkdir
                           (\<lambda>w3. main (cpacs_in m) (cpacs_out m)
                                   (emit (CallMain dotted (cpacs_in m) (cpacs_out m)) w3))
                           w2)))"

section \<open>get_install_path and run_software\<close>

text \<open>
  \<^verbatim>\<open>
  install_path = shutil.which(software_name)
  if install_path is not None:
      log.info(f"{software_name} is installed at: {install_path}")
      return Path(install_path)
  log.warning(f"{software_name} is not installed on your computer!")
  if raise_error:
      raise SoftwareNotInstalled(f"{software_name} is not installed on your computer!")
  else:
      return None
  \<close>
\<close>

definition get_install_path ::
  "string \<Rightarrow> bool \<Rightarrow> world \<Rightarrow> (exn + path option) \<times> world" where
  "get_install_path software_name raise_error w =
     (case which w software_name of
        Some install_path \<Rightarrow>
          (Inr (Some install_path),
           log_info (software_name @ '' is installed at: '' @ str_path install_path) w)
      | None \<Rightarrow>
          (let w' = log_warning (software_name @ '' is not installed on your computer!'') w in
           if raise_error
           then (Inl (SoftwareNotInstalled
                   (software_name @ '' is not installed on your computer!'')), w')
           else (Inr None, w')))"

text \<open>
  An element of the command line is a string, a path or Python's \<open>None\<close> (an executable
  that was not found); \<open>str_arg\<close> is \<open>str\<close> on it. \<open>subprocess.call\<close> raises \<open>TypeError\<close> on
  a \<open>None\<close> element. What the child process does, and whether starting it raises, is the
  parameter \<open>spawn\<close>, given the argument vector and the file its output goes to.
\<close>

type_synonym command_line = "string option list"

definition str_arg :: "string option \<Rightarrow> string" where
  "str_arg a = (case a of None \<Rightarrow> ''None'' | Some x \<Rightarrow> x)"

fun join_spaces :: "string list \<Rightarrow> string" where
  "join_spaces [] = []"
| "join_spaces [x] = x"
| "join_spaces (x # y # ys) = x @ '' '' @ join_spaces (y # ys)"

definition subprocess_call ::
  "(string list \<Rightarrow> path \<Rightarrow> stmt) \<Rightarrow> command_line \<Rightarrow> path \<Rightarrow> stmt" where
  "subprocess_call spawn cmd out w =
     (if None \<in> set cmd then (Some TypeError, w)
      else spawn (map the cmd) out (emit (SubprocessCall (map the cmd) (cwd w)) w))"

text \<open>
  \<^verbatim>\<open>
  command_line = []
  if with_mpi:
      mpi_install_path = get_install_path("mpirun")
      if mpi_install_path is not None:
          command_line += [mpi_install_path, "-np", str(int(nb_cpu))]
  \<close>
\<close>

definition mpi_prefix :: "bool \<Rightarrow> int \<Rightarrow> world \<Rightarrow> (exn + command_line) \<times> world" where
  "mpi_prefix with_mpi nb_cpu w =
     (if with_mpi then
        (case get_install_path ''mpirun'' False w of
           (Inl e, w') \<Rightarrow> (Inl e, w')
         | (Inr None, w') \<Rightarrow> (Inr [], w')
         | (Inr (Some mpi_install_path), w') \<Rightarrow>
             (Inr [Some (str_path mpi_install_path), Some ''-np'', Some (str_int nb_cpu)], w'))
      else (Inr [], w))"

text \<open>
  \<^verbatim>\<open>
  if software_name in ["sumo", "dwfsumo"] and sys.platform == "linux":
      command_line = ["xvfb-run"] + command_line
  \<close>
\<close>

definition xvfb_wrap :: "string \<Rightarrow> world \<Rightarrow> command_line \<Rightarrow> command_line" where
  "xvfb_wrap software_name w cmd =
     (if software_name \<in> set [''sumo'', ''dwfsumo''] \<and> platform w = ''linux''
      then Some ''xvfb-run'' # cmd else cmd)"

text \<open>
  \<^verbatim>\<open>
  log.info(f">>> Running {software_name} on {int(nb_cpu)} cpu(s)")
  log.info(f"Working directory: {wkdir}")
  log.info(f"Logfile: {logfile}")
  log.info("Command line that will be run is:")
  log.info(" ".join(map(str, command_line)))
  with change_working_dir(wkdir):
      with open(logfile, "w") as logfile:
          subprocess.call(command_line, stdout=logfile)
  log.info(f">>> {software_name} End")
  \<close>
\<close>

definition launch ::
  "(string list \<Rightarrow> path \<Rightarrow> stmt) \<Rightarrow> string \<Rightarrow> int \<Rightarrow> path \<Rightarrow> path \<Rightarrow> command_line \<Rightarrow> stmt" where
  "launch spawn software_name nb_cpu wkdir logfile cmd w =
     (let w = log_info
                (''>>> Running '' @ software_name @ '' on '' @ str_int nb_cpu @ '' cpu(s)'') w;
          w = log_info (''Working directory: '' @ str_path wkdir) w;
          w = log_info (''Logfile: '' @ str_path logfile) w;
          w = log_info ''Command line that will be run is:'' w;
          w = log_info (join_spaces (map str_arg cmd)) w
      in case change_working_dir wkdir
                (\<lambda>w. case open_w logfile w of
                        (Some e, w') \<Rightarrow> (Some e, w')
                      | (None, w') \<Rightarrow> subprocess_call spawn cmd logfile w')
                w of
           (Some e, w') \<Rightarrow> (Some e, w')
         | (None, w') \<Rightarrow> (None, log_info (''>>> '' @ software_name @ '' End'') w'))"

definition run_software ::
  "(string list \<Rightarrow> path \<Rightarrow> stmt) \<Rightarrow> string \<Rightarrow> string list \<Rightarrow> path \<Rightarrow> bool \<Rightarrow> int \<Rightarrow> stmt" where
  "run_software spawn software_name arguments wkdir with_mpi nb_cpu w =
     (let w0 = log_info
                 (str_int nb_cpu @ '' cpu over '' @
                  (case cpu_count w of None \<Rightarrow> ''None'' | Some n \<Rightarrow> str_int n) @
                  '' will be used for this calculation.'') w;
          logfile = wkdir @ [''logfile_'' @ software_name @ ''.log'']
      in case get_install_path software_name False w0 of
           (Inl e, w1) \<Rightarrow> (Some e, w1)
         | (Inr install_path, w1) \<Rightarrow>
             (case mpi_prefix with_mpi nb_cpu w1 of
                (Inl e, w2) \<Rightarrow> (Some e, w2)
              | (Inr command_line, w2) \<Rightarrow>
                  launch spawn software_name nb_cpu wkdir logfile
                    (xvfb_wrap software_name w2
                       (command_line @ [map_option str_path install_path] @ map Some arguments))
                    w2))"

text \<open>
  The five log records that \<open>run_software\<close> writes before it enters the working
  directory, by themselves, to name the world in which the child process is started.
\<close>

definition announce :: "string \<Rightarrow> int \<Rightarrow> path \<Rightarrow> path \<Rightarrow> command_line \<Rightarrow> world \<Rightarrow> world" where
  "announce software_name nb_cpu wkdir logfile cmd w =
     w\<lparr>trace := trace w @ map LogInfo
        [''>>> Running '' @ software_name @ '' on '' @ str_int nb_cpu @ '' cpu(s)'',
         ''Working directory: '' @ str_path wkdir,
         ''Logfile: '' @ str_path logfile,
         ''Command line that will be run is:'',
         join_spaces (map str_arg cmd)]\<rparr>"

section \<open>remove_file_type_in_dir\<close>

text \<open>
  \<^verbatim>\<open>
  if not directory.exists():
      raise FileNotFoundError(f"The directory {directory} does not exist!")
  for file in directory.iterdir():
      if not file.is_file():
          continue
      if file.suffix in file_type_list:
          file.unlink()
  \<close>
\<close>

fun remove_loop :: "string list \<Rightarrow> path list \<Rightarrow> stmt" where
  "remove_loop file_type_list [] w = (None, w)"
| "remove_loop file_type_list (file # files) w =
     (if \<not> is_file w file then remove_loop file_type_list files w
      else if path_suffix file \<in> set file_type_list then
        (case unlink file w of
           (Some e, w') \<Rightarrow> (Some e, w')
         | (None, w') \<Rightarrow> remove_loop file_type_list files w')
      else remove_loop file_type_list files w)"

definition remove_file_type_in_dir :: "path \<Rightarrow> string list \<Rightarrow> stmt" where
  "remove_file_type_in_dir directory file_type_list w =
     (if \<not> exists_path w directory then (Some (FileNotFoundError directory), w)
      else case iterdir w directory of
             Inl e \<Rightarrow> (Some e, w)
           | Inr files \<Rightarrow> remove_loop file_type_list files w)"

text \<open>
  What \<open>remove_file_type_in_dir\<close> is to leave behind, stated apart from the loop:
  \<open>deletes w d types n\<close> says that entry \<open>n\<close> of directory \<open>d\<close> is a regular file whose
  suffix is in the list; \<open>after_removal\<close> is the file system of \<open>w\<close> without the entries
  among \<open>ns\<close> that \<open>deletes\<close> selects.
\<close>

definition deletes :: "world \<Rightarrow> path \<Rightarrow> string list \<Rightarrow> string \<Rightarrow> bool" where
  "deletes w d types n = (is_file w (d @ [n]) \<and> path_suffix (d @ [n]) \<in> set types)"

definition after_removal ::
  "world \<Rightarrow> path \<Rightarrow> string list \<Rightarrow> string list \<Rightarrow> string list \<Rightarrow> (path \<Rightarrow> node option)" where
  "after_removal w d types ns names =
     (\<lambda>p. if p = d then Some (Dir (filter (\<lambda>n. \<not> (n \<in> set ns \<and> deletes w d types n)) names))
          else if \<exists>n\<in>set ns. p = d @ [n] \<and> deletes w d types n then None
          else fs w p)"

text \<open>A small host used to run the definitions on concrete inputs.\<close>

definition host_fs :: "path \<Rightarrow> node option" where
  "host_fs = (\<lambda>_. None)
     ([] \<mapsto> Dir [''home'', ''tmp'', ''ceasiompy''],
      [''home''] \<mapsto> Dir [''run.log'', ''mesh.su2'', ''old.log'', ''in.xml''],
      [''home'', ''run.log''] \<mapsto> File ''old'',
      [''home'', ''mesh.su2''] \<mapsto> File ''mesh'',
      [''home'', ''old.log''] \<mapsto> Dir [''keep.log''],
      [''home'', ''old.log'', ''keep.log''] \<mapsto> File ''kept'',
      [''home'', ''in.xml''] \<mapsto> File ''<cpacs/>'',
      [''tmp''] \<mapsto> Dir [],
      [''ceasiompy''] \<mapsto> Dir [''Optimisation''],
      [''ceasiompy'', ''Optimisation''] \<mapsto>
        Dir [''__init__.py'', ''optimisation.py'', ''__specs__.py''],
      [''ceasiompy'', ''Optimisation'', ''__init__.py''] \<mapsto> File [],
      [''ceasiompy'', ''Optimisation'', ''optimisation.py''] \<mapsto> File [],
      [''ceasiompy'', ''Optimisation'', ''__specs__.py''] \<mapsto> File [])"

definition host :: world where
  "host = \<lparr>cwd = Some [''home''], fs = host_fs, trace = [], cpu_count = Some 8,
           platform = ''linux'',
           which = (\<lambda>_. None)(''avl'' \<mapsto> [''usr'', ''bin'', ''avl''])\<rparr>"

text \<open>An entry point that copies the input document to the output path.\<close>

definition copy_main :: "path \<Rightarrow> path \<Rightarrow> stmt" where
  "copy_main input output w =
     (case fs w input of
        Some (File content) \<Rightarrow> (None, w\<lparr>fs := add_entry output (File content) (fs w)\<rparr>)
      | _ \<Rightarrow> (Some (FileNotFoundError input), w))"

definition demo_installation :: installation where
  "demo_installation =
     \<lparr>module_list = [''Optimisation''],
      import_specs = (\<lambda>dotted.
        if dotted = ''ceasiompy.Optimisation.__specs__''
        then Inr (Relative [''Results'', ''Optimisation'']) else Inl (ImportError dotted)),
      import_main = (\<lambda>dotted.
        if dotted = ''ceasiompy.Optimisation.optimisation''
        then Inr copy_main else Inl (ImportError dotted))\<rparr>"

definition demo_module :: module_to_run where
  "demo_module =
     \<lparr>name = ''Optimisation'', cpacs_in = [''home'', ''in.xml''],
      cpacs_out = [''home'', ''out.xml''],
      module_dir = [''ceasiompy'', ''Optimisation'']\<rparr>"

text \<open>A child process that writes \<open>hello\<close> to its output file and exits.\<close>

definition echo_spawn :: "string list \<Rightarrow> path \<Rightarrow> stmt" where
  "echo_spawn argv out w = (None, w\<lparr>fs := (fs w)(out \<mapsto> File ''hello'')\<rparr>)"

definition demo_tixi :: tixi_doc where
  "demo_tixi =
     \<lparr>elements = {''/cpacs/toolspecific/plot/aeroMapToPlot''},
      vectors = Map.empty(''/cpacs/toolspecific/plot/aeroMapToPlot'' \<mapsto> [''map_a'']),
      uid_xpath = Map.empty
        (''Wing1'' \<mapsto> ''/cpacs/vehicles/aircraft/model/wings/wing[1]'',
         ''Rotor1'' \<mapsto> ''/cpacs/vehicles/rotorcraft/model/rotors/rotor[1]'',
         ''Cowl1'' \<mapsto> ''/cpacs/vehicles/engines/engine/nacelle/fanCowl'',
         ''Box'' \<mapsto> ''/cpacs/vehicles/aircraft/model/systems/box'')\<rparr>"

definition demo_cpacs :: cpacs where
  "demo_cpacs = \<lparr>tixi = demo_tixi, aeromap_uids = [''map_a'', ''map_b'']\<rparr>"

section \<open>Properties of change_working_dir\<close>

lemma chdir_dir:
  "is_dir w p \<Longrightarrow> chdir p w = (None, w\<lparr>cwd := Some p, trace := trace w @ [ChdirCall p]\<rparr>)"
  by (auto simp: chdir_def is_dir_def emit_def Let_def split: option.splits node.splits)

lemma chdir_not_dir:
  "\<not> is_dir w p \<Longrightarrow> \<exists>e. is_EnvironmentError e \<and>
     chdir p w = (Some e, w\<lparr>trace := trace w @ [ChdirCall p]\<rparr>)"
  by (auto simp: chdir_def is_dir_def emit_def Let_def split: option.splits node.splits)

text \<open>
  C1, as stated: whatever the enclosed operation does, the working directory is \<open>D\<close>
  again after the scope. It fails when the operation removes \<open>D\<close>: the restoring
  \<open>os.chdir(cwd)\<close> then raises and the process stays where the operation left it. On the
  small host, an operation run under \<open>/tmp\<close> that removes \<open>/home\<close>, the starting
  directory, ends with \<open>FileNotFoundError\<close> and the working directory \<open>/tmp\<close>, whether
  it returns or raises.
\<close>

theorem change_working_dir_lost_directory_counterexample:
  "cwd host = Some [''home''] \<and> is_dir host [''tmp''] \<and>
   change_working_dir [''tmp''] (\<lambda>w. (None, w\<lparr>fs := (fs w)([''home''] := None)\<rparr>)) host =
     (Some (FileNotFoundError [''home'']),
      host\<lparr>cwd := Some [''tmp''], fs := (fs host)([''home''] := None),
           trace := [ChdirCall [''tmp''], ChdirCall [''home'']]\<rparr>) \<and>
   cwd (snd (change_working_dir [''tmp'']
         (\<lambda>w. (None, w\<lparr>fs := (fs w)([''home''] := None)\<rparr>)) host)) \<noteq> Some [''home''] \<and>
   cwd (snd (change_working_dir [''tmp'']
         (\<lambda>w. (Some (Exception ''boom''), w\<lparr>fs := (fs w)([''home''] := None)\<rparr>)) host)) \<noteq>
     Some [''home'']"
  by (simp add: change_working_dir_def finally_chdir_def chdir_def getcwd_def emit_def
      is_dir_def host_def host_fs_def)

text \<open>
  C1, amended. Let the process be in directory \<open>D\<close> and let \<open>T\<close> be a directory. Then
  \<open>change_working_dir T\<close> runs the enclosed operation in the world \<open>w1\<close>, whose working
  directory is \<open>T\<close>. Whatever the operation does and whether it returns (\<open>r = None\<close>) or
  raises (\<open>r = Some e\<close>), the scope calls \<open>chdir D\<close> exactly once after it and nothing else.
  When \<open>D\<close> is a directory at that moment the call succeeds: the working directory is
  \<open>D\<close> again and the operation's outcome is the scope's outcome. When it is not, the
  call raises an \<open>EnvironmentError\<close>, which is the scope's outcome, and the world is as the
  operation left it.
\<close>

theorem change_working_dir_restores:
  assumes "cwd w = Some D"
    and "is_dir w T"
    and "w1 = w\<lparr>cwd := Some T, trace := trace w @ [ChdirCall T]\<rparr>"
    and "body w1 = (r, w2)"
  shows "cwd w1 = Some T \<and>
         trace (snd (change_working_dir T body w)) = trace w2 @ [ChdirCall D] \<and>
         (is_dir w2 D \<longrightarrow>
            change_working_dir T body w =
              (r, w2\<lparr>cwd := Some D, trace := trace w2 @ [ChdirCall D]\<rparr>) \<and>
            cwd (snd (change_working_dir T body w)) = Some D) \<and>
         (\<not> is_dir w2 D \<longrightarrow>
            (\<exists>e. is_EnvironmentError e \<and>
               change_working_dir T body w = (Some e, w2\<lparr>trace := trace w2 @ [ChdirCall D]\<rparr>)))"
proof -
  have enter: "chdir T w = (None, w1)"
    using assms(2,3) by (simp add: chdir_dir)
  have run: "change_working_dir T body w = finally_chdir D r w2"
    using assms(1,4) enter by (simp add: change_working_dir_def getcwd_def)
  have leave: "finally_chdir D r w2 = (r, w2\<lparr>cwd := Some D, trace := trace w2 @ [ChdirCall D]\<rparr>)"
    if "is_dir w2 D"
    using that by (simp add: finally_chdir_def chdir_dir)
  have stuck: "\<exists>e. is_EnvironmentError e \<and>
      finally_chdir D r w2 = (Some e, w2\<lparr>trace := trace w2 @ [ChdirCall D]\<rparr>)"
    if "\<not> is_dir w2 D"
    using chdir_not_dir [OF that] by (auto simp: finally_chdir_def)
  have once: "trace (snd (finally_chdir D r w2)) = trace w2 @ [ChdirCall D]"
    using leave stuck by (cases "is_dir w2 D") auto
  from run once leave stuck assms(3) show ?thesis by simp
qed

theorem change_working_dir_restores_witness:
  "change_working_dir [''tmp''] (\<lambda>w. (Some (Exception ''boom''), w)) host =
     (Some (Exception ''boom''),
      host\<lparr>cwd := Some [''home''],
           trace := [ChdirCall [''tmp''], ChdirCall [''home'']]\<rparr>) \<and>
   change_working_dir [''tmp''] (\<lambda>w. (None, w\<lparr>cwd := Some [''ceasiompy'']\<rparr>)) host =
     (None,
      host\<lparr>cwd := Some [''home''],
           trace := [ChdirCall [''tmp''], ChdirCall [''home'']]\<rparr>) \<and>
   (\<exists>e. is_EnvironmentError e \<and>
      change_working_dir [''tmp''] (\<lambda>w. (None, w\<lparr>fs := (fs w)([''home''] := None)\<rparr>)) host =
        (Some e,
         host\<lparr>cwd := Some [''tmp''], fs := (fs host)([''home''] := None),
              trace := [ChdirCall [''tmp''], ChdirCall [''home'']]\<rparr>))"
proof -
  let ?w1 = "host\<lparr>cwd := Some [''tmp''], trace := trace host @ [ChdirCall [''tmp'']]\<rparr>"
  let ?w2 = "?w1\<lparr>cwd := Some [''ceasiompy'']\<rparr>"
  let ?w3 = "?w1\<lparr>fs := (fs ?w1)([''home''] := None)\<rparr>"
  have a: "cwd host = Some [''home'']" by (simp add: host_def)
  have b: "is_dir host [''tmp'']" by (simp add: is_dir_def host_def host_fs_def)
  have raises: "(\<lambda>w. (Some (Exception ''boom''), w)) ?w1 = (Some (Exception ''boom''), ?w1)"
    by simp
  have returns: "(\<lambda>w. (None, w\<lparr>cwd := Some [''ceasiompy'']\<rparr>)) ?w1 = (None, ?w2)"
    by simp
  have removes: "(\<lambda>w. (None, w\<lparr>fs := (fs w)([''home''] := None)\<rparr>)) ?w1 = (None, ?w3)"
    by simp
  have d: "is_dir ?w1 [''home'']" "is_dir ?w2 [''home'']" "\<not> is_dir ?w3 [''home'']"
    by (simp_all add: is_dir_def host_def host_fs_def)
  note kept = change_working_dir_restores
      [where w = host and body = "\<lambda>w. (Some (Exception ''boom''), w)", OF a b refl raises,
        THEN conjunct2, THEN conjunct2, THEN conjunct1, rule_format, OF d(1), THEN conjunct1]
  note moved = change_working_dir_restores
      [where w = host and body = "\<lambda>w. (None, w\<lparr>cwd := Some [''ceasiompy'']\<rparr>)",
        OF a b refl returns,
        THEN conjunct2, THEN conjunct2, THEN conjunct1, rule_format, OF d(2), THEN conjunct1]
  note lost = change_working_dir_restores
      [where w = host and body = "\<lambda>w. (None, w\<lparr>fs := (fs w)([''home''] := None)\<rparr>)",
        OF a b refl removes,
        THEN conjunct2, THEN conjunct2, THEN conjunct2, rule_format, OF d(3)]
  from kept moved lost show ?thesis
    by (simp add: host_def)
qed

text \<open>
  C2, as stated: when the change into the target fails, nothing is called after the failed
  \<open>chdir\<close>. It fails on the code: \<open>os.chdir(working_dir)\<close> stands inside the \<open>try\<close>, so the
  \<open>finally\<close> clause runs and calls \<open>os.chdir(cwd)\<close>. On the small host, entering the missing
  directory \<open>/nowhere\<close> from \<open>/home\<close> records two calls.
\<close>

theorem change_working_dir_failed_entry_counterexample:
  "\<not> is_dir host [''nowhere''] \<and>
   trace (snd (change_working_dir [''nowhere''] (\<lambda>w. (None, w)) host)) =
     [ChdirCall [''nowhere''], ChdirCall [''home'']] \<and>
   trace (snd (change_working_dir [''nowhere''] (\<lambda>w. (None, w)) host)) \<noteq>
     [ChdirCall [''nowhere'']]"
  by (simp add: change_working_dir_def finally_chdir_def chdir_def getcwd_def emit_def
      is_dir_def host_def host_fs_def)

text \<open>
  C2, amended. Let the process be in directory \<open>D\<close> and let \<open>T\<close> not be a directory. Then
  the enclosed operation is never run (the result does not depend on it), the scope
  raises an \<open>EnvironmentError\<close>, the working directory is still \<open>D\<close>, nothing else changes,
  and after the failed \<open>chdir T\<close> the \<open>finally\<close> clause calls \<open>chdir D\<close> once. The error raised is the
  one of \<open>chdir T\<close> when \<open>D\<close> is still a directory, the one of \<open>chdir D\<close> otherwise.
\<close>

theorem change_working_dir_failed_entry:
  assumes "cwd w = Some D" and "\<not> is_dir w T"
  shows "change_working_dir T body w =
           (fst (chdir (if is_dir w D then T else D) w),
            w\<lparr>trace := trace w @ [ChdirCall T, ChdirCall D]\<rparr>) \<and>
         (\<exists>e. fst (change_working_dir T body w) = Some e \<and> is_EnvironmentError e)"
proof -
  obtain e where e: "is_EnvironmentError e"
      "chdir T w = (Some e, w\<lparr>trace := trace w @ [ChdirCall T]\<rparr>)"
    using chdir_not_dir [OF assms(2)] by blast
  let ?w1 = "w\<lparr>trace := trace w @ [ChdirCall T]\<rparr>"
  have step: "change_working_dir T body w = finally_chdir D (Some e) ?w1"
    using assms(1) e(2) by (simp add: change_working_dir_def getcwd_def)
  show ?thesis
  proof (cases "is_dir w D")
    case True
    then have "is_dir ?w1 D" by (simp add: is_dir_def)
    then have "finally_chdir D (Some e) ?w1 =
        (Some e, w\<lparr>trace := trace w @ [ChdirCall T, ChdirCall D]\<rparr>)"
      using assms(1) by (simp add: finally_chdir_def chdir_dir)
    with step e True show ?thesis by simp
  next
    case False
    then have "\<not> is_dir ?w1 D" by (simp add: is_dir_def)
    from chdir_not_dir [OF this] chdir_not_dir [OF False]
    obtain e' e'' where e': "is_EnvironmentError e'"
        "chdir D ?w1 = (Some e', w\<lparr>trace := trace w @ [ChdirCall T, ChdirCall D]\<rparr>)"
        "chdir D w = (Some e'', w\<lparr>trace := trace w @ [ChdirCall D]\<rparr>)"
      by auto
    have "fst (chdir D ?w1) = fst (chdir D w)"
      by (simp add: chdir_def emit_def Let_def split: option.splits node.splits)
    with e' have "e'' = e'" by simp
    with step e' False show ?thesis by (simp add: finally_chdir_def)
  qed
qed

theorem change_working_dir_failed_entry_witness:
  "change_working_dir [''nowhere''] (\<lambda>w. (None, w\<lparr>cwd := None\<rparr>)) host =
     (Some (FileNotFoundError [''nowhere'']),
      host\<lparr>trace := [ChdirCall [''nowhere''], ChdirCall [''home'']]\<rparr>)"
proof -
  have a: "cwd host = Some [''home'']" by (simp add: host_def)
  have b: "\<not> is_dir host [''nowhere'']" by (simp add: is_dir_def host_def host_fs_def)
  have c: "is_dir host [''home'']" by (simp add: is_dir_def host_def host_fs_def)
  have d: "fst (chdir [''nowhere''] host) = Some (FileNotFoundError [''nowhere''])"
    by (simp add: chdir_def emit_def host_def host_fs_def)
  show ?thesis
    using change_working_dir_failed_entry [OF a b, of "\<lambda>w. (None, w\<lparr>cwd := None\<rparr>)"] c d
    by (simp add: host_def)
qed

section \<open>Properties of get_reasonable_nb_cpu\<close>

lemma ceiling_quarter: "\<lceil>real_of_int n / 4\<rceil> = (n + 3) div 4"
proof -
  have "\<lceil>real_of_int n / 4\<rceil> = - \<lfloor>real_of_int (- n) / real_of_int 4\<rfloor>"
    by (simp add: ceiling_def)
  also have "\<dots> = - ((- n) div 4)"
    by (simp only: floor_divide_of_int_eq)
  also have "\<dots> = (n + 3) div 4"
    by presburger
  finally show ?thesis .
qed

text \<open>
  C3. On a host reporting \<open>n\<close> CPUs the function returns \<open>ceil(n / 4)\<close>, which is
  \<open>(n + 3) div 4\<close> in integer arithmetic: 1 for \<open>n\<close> from 1 to 4, 2 for \<open>n = 8\<close>. When the
  count cannot be determined it returns 1. The function is a total map from the host to
  an integer: it returns no changed world and no exception.
\<close>

theorem get_reasonable_nb_cpu_ceil:
  "get_reasonable_nb_cpu (w\<lparr>cpu_count := Some n\<rparr>) = \<lceil>real_of_int n / 4\<rceil> \<and>
   get_reasonable_nb_cpu (w\<lparr>cpu_count := Some n\<rparr>) = (n + 3) div 4 \<and>
   (1 \<le> n \<and> n \<le> 4 \<longrightarrow> get_reasonable_nb_cpu (w\<lparr>cpu_count := Some n\<rparr>) = 1) \<and>
   get_reasonable_nb_cpu (w\<lparr>cpu_count := Some 8\<rparr>) = 2 \<and>
   get_reasonable_nb_cpu (w\<lparr>cpu_count := None\<rparr>) = 1"
proof -
  have "1 \<le> n \<and> n \<le> 4 \<longrightarrow> (n + 3) div 4 = 1"
    by presburger
  then show ?thesis
    by (simp add: get_reasonable_nb_cpu_def ceiling_quarter)
qed

theorem get_reasonable_nb_cpu_ceil_witness:
  "get_reasonable_nb_cpu (host\<lparr>cpu_count := Some 3\<rparr>) = 1"
  using get_reasonable_nb_cpu_ceil [where w = host and n = 3] by simp

section \<open>Properties of get_aeromap_list_from_xpath\<close>

text \<open>
  C7. When a vector \<open>v\<close> is stored at the XPath, the function returns \<open>v\<close> and the document
  is unchanged, whatever the flag. When none is stored: with \<open>empty_if_not_found\<close> false
  it returns the uIDs of all aeromaps and the document it leaves holds that list at the
  XPath (reading it back gives the list); with the flag true it returns the empty list
  and the document is unchanged.
\<close>

theorem get_aeromap_list_from_xpath_cases:
  "(vectors (tixi c) xpath = Some v \<longrightarrow>
      get_aeromap_list_from_xpath c xpath flag = Inr (v, c)) \<and>
   (vectors (tixi c) xpath = None \<longrightarrow>
      get_aeromap_list_from_xpath c xpath False =
        Inr (aeromap_uids c,
             c\<lparr>tixi := (tixi c)\<lparr>elements := insert xpath (elements (tixi c)),
                               vectors := (vectors (tixi c))(xpath \<mapsto> aeromap_uids c)\<rparr>\<rparr>) \<and>
      get_string_vector (tixi (snd (projr (get_aeromap_list_from_xpath c xpath False)))) xpath =
        Inr (aeromap_uids c) \<and>
      get_aeromap_list_from_xpath c xpath True = Inr ([], c))"
  by (simp add: get_aeromap_list_from_xpath_def get_string_vector_def create_branch_def
      add_string_vector_def get_aeromap_uid_list_def Let_def)

theorem get_aeromap_list_from_xpath_cases_witness:
  "get_aeromap_list_from_xpath demo_cpacs ''/cpacs/toolspecific/plot/aeroMapToPlot'' False =
     Inr ([''map_a''], demo_cpacs) \<and>
   fst (projr (get_aeromap_list_from_xpath demo_cpacs ''/cpacs/toolspecific/new'' False)) =
     [''map_a'', ''map_b''] \<and>
   get_string_vector
     (tixi (snd (projr (get_aeromap_list_from_xpath demo_cpacs ''/cpacs/toolspecific/new'' False))))
     ''/cpacs/toolspecific/new'' = Inr [''map_a'', ''map_b''] \<and>
   get_aeromap_list_from_xpath demo_cpacs ''/cpacs/toolspecific/new'' True = Inr ([], demo_cpacs)"
proof -
  have a: "vectors (tixi demo_cpacs) ''/cpacs/toolspecific/plot/aeroMapToPlot'' = Some [''map_a'']"
    by (simp add: demo_cpacs_def demo_tixi_def)
  have b: "vectors (tixi demo_cpacs) ''/cpacs/toolspecific/new'' = None"
    by (simp add: demo_cpacs_def demo_tixi_def)
  have c: "aeromap_uids demo_cpacs = [''map_a'', ''map_b'']"
    by (simp add: demo_cpacs_def)
  note stored = get_aeromap_list_from_xpath_cases
    [of demo_cpacs "''/cpacs/toolspecific/plot/aeroMapToPlot''" "[''map_a'']" False,
      THEN conjunct1, rule_format, OF a]
  note absent = get_aeromap_list_from_xpath_cases
    [of demo_cpacs "''/cpacs/toolspecific/new''" "[]" False, THEN conjunct2, rule_format, OF b]
  from absent have "fst (projr (get_aeromap_list_from_xpath demo_cpacs
      ''/cpacs/toolspecific/new'' False)) = aeromap_uids demo_cpacs"
    by simp
  with stored absent show ?thesis
    unfolding c by blast
qed

section \<open>Properties of get_part_type\<close>

lemma hd_split_aux: "hd (split_aux sep 0 acc s) = rev acc @ before_first sep s"
  by (induction s arbitrary: acc) auto

lemma hd_py_split: "hd (py_split sep s) = before_first sep s"
  by (simp add: py_split_def hd_split_aux)

lemma before_first_none: "\<not> sublist sep s \<Longrightarrow> before_first sep s = s"
  by (induction s) (auto simp: sublist_Cons_right)

text \<open>
  A separator whose first character does not occur again in it cannot start inside
  \<open>xs\<close> and end inside a copy of itself that follows \<open>xs\<close>.
\<close>

lemma no_straddle:
  assumes "hd sep \<notin> set (tl sep)" and "prefix sep (xs @ sep @ r)" and "xs \<noteq> []"
  shows "prefix sep xs"
proof -
  from assms(2) consider "prefix sep xs" | us where "sep = xs @ us" "prefix us (sep @ r)"
    unfolding prefix_append by blast
  then show ?thesis
  proof cases
    case 1
    then show ?thesis .
  next
    case 2
    show ?thesis
    proof (cases us)
      case Nil
      with 2 show ?thesis by simp
    next
      case (Cons u us')
      from assms(3) obtain x xs' where xs: "xs = x # xs'" by (cases xs) auto
      have "u = x" using 2 Cons xs by auto
      have "hd sep = x" using 2(1) xs by simp
      moreover have "u \<in> set (tl sep)"
        using 2(1) Cons xs by simp
      ultimately show ?thesis using assms(1) \<open>u = x\<close> by simp
    qed
  qed
qed

lemma before_first_append:
  assumes "sep \<noteq> []" and "hd sep \<notin> set (tl sep)"
  shows "before_first sep (b @ sep @ r) = before_first sep b"
proof (induction b)
  case Nil
  from assms(1) show ?case by (cases sep) auto
next
  case (Cons c cs)
  show ?case
  proof (cases "prefix sep (c # cs)")
    case True
    then have "prefix sep ((c # cs) @ sep @ r)" by (rule prefix_prefix)
    with True show ?thesis by simp
  next
    case False
    have "\<not> prefix sep ((c # cs) @ sep @ r)"
      using no_straddle [OF assms(2), of "c # cs" r] False by blast
    with False Cons show ?thesis by simp
  qed
qed

lemma mirrored_sep: "''_mirrored'' \<noteq> [] \<and> hd ''_mirrored'' \<notin> set (tl ''_mirrored'')"
  by simp

text \<open>
  C8, as stated: every address that matches no pattern gives the unrecognized result and
  a warning. The warning is written under \<open>if print:\<close>, so a call with \<open>print=False\<close> on
  such an address returns \<open>None\<close> and writes nothing.
\<close>

theorem get_part_type_silent_counterexample:
  "uIDGetXPath demo_tixi ''Box'' = Inr ''/cpacs/vehicles/aircraft/model/systems/box'' \<and>
   first_match ''/cpacs/vehicles/aircraft/model/systems/box'' = None \<and>
   get_part_type demo_tixi ''Box'' False = Inr (None, [])"
  by code_simp

text \<open>
  C8, amended. Let the (truncated) uID resolve to the address \<open>part_xpath\<close>. The type
  returned is the one of the first pattern, in the order of the chain, that occurs in the
  address: \<open>wing\<close> when \<open>wings/wing\<close> occurs; \<open>rotor\<close> when
  \<open>vehicles/rotorcraft/model/rotors/rotor\<close> occurs and none of the seven patterns before
  it does; \<open>None\<close> when no pattern occurs, and then the only record written is a warning,
  written when \<open>print\<close> is true and not otherwise.
\<close>

theorem get_part_type_first_match:
  assumes "uid_xpath t (hd (py_split ''_mirrored'' part_uid)) = Some part_xpath"
  shows "(\<exists>records. get_part_type t part_uid print = Inr (first_match part_xpath, records)) \<and>
    (sublist ''wings/wing'' part_xpath \<longrightarrow> first_match part_xpath = Some ''wing'') \<and>
    (sublist ''vehicles/rotorcraft/model/rotors/rotor'' part_xpath \<and>
       (\<forall>(pat, ty)\<in>set (butlast part_patterns). \<not> sublist pat part_xpath) \<longrightarrow>
       first_match part_xpath = Some ''rotor'') \<and>
    ((\<forall>(pat, ty)\<in>set part_patterns. \<not> sublist pat part_xpath) \<longrightarrow>
       get_part_type t part_uid print =
         Inr (None,
              if print
              then [LogWarning (quoted (hd (py_split ''_mirrored'' part_uid)) @
                      '' cannot be categorized!'')]
              else []))"
proof -
  have 1: "\<exists>records. get_part_type t part_uid print = Inr (first_match part_xpath, records)"
    using assms
    by (simp add: get_part_type_def uIDGetXPath_def first_match_def part_patterns_def)
  have 2: "sublist ''wings/wing'' part_xpath \<longrightarrow> first_match part_xpath = Some ''wing''"
    by (simp add: first_match_def part_patterns_def)
  have 3: "sublist ''vehicles/rotorcraft/model/rotors/rotor'' part_xpath \<and>
       (\<forall>(pat, ty)\<in>set (butlast part_patterns). \<not> sublist pat part_xpath) \<longrightarrow>
       first_match part_xpath = Some ''rotor''"
    by (simp add: first_match_def part_patterns_def)
  have 4: "(\<forall>(pat, ty)\<in>set part_patterns. \<not> sublist pat part_xpath) \<longrightarrow>
       get_part_type t part_uid print =
         Inr (None,
              if print
              then [LogWarning (quoted (hd (py_split ''_mirrored'' part_uid)) @
                      '' cannot be categorized!'')]
              else [])"
    using assms
    by (simp add: get_part_type_def uIDGetXPath_def part_patterns_def said_def)
  from 1 2 3 4 show ?thesis by blast
qed

theorem get_part_type_first_match_witness:
  "fst (projr (get_part_type demo_tixi ''Wing1'' True)) = Some ''wing'' \<and>
   fst (projr (get_part_type demo_tixi ''Rotor1'' True)) = Some ''rotor'' \<and>
   sublist ''vehicles/engines/engine'' ''/cpacs/vehicles/engines/engine/nacelle/fanCowl'' \<and>
   fst (projr (get_part_type demo_tixi ''Cowl1'' True)) = Some ''fanCowl'' \<and>
   get_part_type demo_tixi ''Box'' True =
     Inr (None, [LogWarning (quoted ''Box'' @ '' cannot be categorized!'')])"
proof -
  let ?cowl = "''/cpacs/vehicles/engines/engine/nacelle/fanCowl''"
  have c: "uid_xpath demo_tixi (hd (py_split ''_mirrored'' ''Cowl1'')) = Some ?cowl"
    by code_simp
  have c': "sublist ''vehicles/engines/engine'' ?cowl" "first_match ?cowl = Some ''fanCowl''"
    by code_simp+
  from get_part_type_first_match [OF c, of True]
  obtain cs where "get_part_type demo_tixi ''Cowl1'' True = Inr (first_match ?cowl, cs)"
    by blast
  with c' have cowl: "fst (projr (get_part_type demo_tixi ''Cowl1'' True)) = Some ''fanCowl''"
    by simp
  let ?wing = "''/cpacs/vehicles/aircraft/model/wings/wing[1]''"
  let ?rotor = "''/cpacs/vehicles/rotorcraft/model/rotors/rotor[1]''"
  let ?box = "''/cpacs/vehicles/aircraft/model/systems/box''"
  have w: "uid_xpath demo_tixi (hd (py_split ''_mirrored'' ''Wing1'')) = Some ?wing"
    by code_simp
  have r: "uid_xpath demo_tixi (hd (py_split ''_mirrored'' ''Rotor1'')) = Some ?rotor"
    by code_simp
  have b: "uid_xpath demo_tixi (hd (py_split ''_mirrored'' ''Box'')) = Some ?box"
    by code_simp
  have w': "sublist ''wings/wing'' ?wing"
    by code_simp
  have r': "sublist ''vehicles/rotorcraft/model/rotors/rotor'' ?rotor \<and>
      (\<forall>(pat, ty)\<in>set (butlast part_patterns). \<not> sublist pat ?rotor)"
    by code_simp
  have b': "\<forall>(pat, ty)\<in>set part_patterns. \<not> sublist pat ?box"
    by code_simp
  have b'': "hd (py_split ''_mirrored'' ''Box'') = ''Box''"
    by code_simp
  from get_part_type_first_match [OF w, of True] w'
  obtain ws where "get_part_type demo_tixi ''Wing1'' True = Inr (first_match ?wing, ws)"
    and "first_match ?wing = Some ''wing''"
    by blast
  then have wing: "fst (projr (get_part_type demo_tixi ''Wing1'' True)) = Some ''wing''"
    by simp
  from get_part_type_first_match [OF r, of True] r'
  obtain rs where "get_part_type demo_tixi ''Rotor1'' True = Inr (first_match ?rotor, rs)"
    and "first_match ?rotor = Some ''rotor''"
    by blast
  then have rotor: "fst (projr (get_part_type demo_tixi ''Rotor1'' True)) = Some ''rotor''"
    by simp
  from get_part_type_first_match [OF b, of True] b'
  have "get_part_type demo_tixi ''Box'' True =
      Inr (None,
           if True
           then [LogWarning (quoted (hd (py_split ''_mirrored'' ''Box'')) @
                   '' cannot be categorized!'')]
           else [])"
    by blast
  then have box: "get_part_type demo_tixi ''Box'' True =
      Inr (None, [LogWarning (quoted ''Box'' @ '' cannot be categorized!'')])"
    by (simp only: b'' if_True)
  from wing rotor box cowl c'(1) show ?thesis by blast
qed

lemma get_part_type_unknown:
  "uid_xpath t (hd (py_split ''_mirrored'' part_uid)) = None \<Longrightarrow>
   get_part_type t part_uid print = Inl (Tixi3Exception (hd (py_split ''_mirrored'' part_uid)))"
  by (simp add: get_part_type_def uIDGetXPath_def)

lemma get_part_type_known:
  "uid_xpath t (hd (py_split ''_mirrored'' part_uid)) = Some part_xpath \<Longrightarrow>
   \<exists>records. get_part_type t part_uid print = Inr (first_match part_xpath, records)"
  by (simp add: get_part_type_def uIDGetXPath_def first_match_def part_patterns_def)

text \<open>
  C9. The uID that is resolved is the text before the first \<open>_mirrored\<close>: the uID
  \<open>base_mirrored...\<close> resolves what \<open>base\<close> resolves, \<open>base\<close> itself when \<open>_mirrored\<close> does
  not occur in it, and \<open>get_part_type\<close> gives the same result and the same log records
  for both. So when \<open>base\<close> has the address \<open>part_xpath\<close>, the mirrored uID is given the type
  of the first pattern that occurs in \<open>part_xpath\<close>, as \<open>base\<close> is; when the document
  has no element \<open>base\<close>, the lookup of \<open>base\<close> is what raises.
\<close>

theorem get_part_type_mirrored:
  "hd (py_split ''_mirrored'' (base @ ''_mirrored'' @ rest)) = hd (py_split ''_mirrored'' base) \<and>
   (\<not> sublist ''_mirrored'' base \<longrightarrow>
      hd (py_split ''_mirrored'' (base @ ''_mirrored'' @ rest)) = base) \<and>
   get_part_type t (base @ ''_mirrored'' @ rest) print = get_part_type t base print \<and>
   (\<not> sublist ''_mirrored'' base \<and> uid_xpath t base = Some part_xpath \<longrightarrow>
      (\<exists>records. get_part_type t (base @ ''_mirrored'' @ rest) print =
         Inr (first_match part_xpath, records)) \<and>
      (\<exists>records. get_part_type t base print = Inr (first_match part_xpath, records))) \<and>
   (\<not> sublist ''_mirrored'' base \<and> uid_xpath t base = None \<longrightarrow>
      get_part_type t (base @ ''_mirrored'' @ rest) print = Inl (Tixi3Exception base))"
proof -
  have eq: "hd (py_split ''_mirrored'' (base @ ''_mirrored'' @ rest)) =
      hd (py_split ''_mirrored'' base)"
    unfolding hd_py_split using mirrored_sep by (intro before_first_append) simp_all
  have whole: "hd (py_split ''_mirrored'' base) = base" if "\<not> sublist ''_mirrored'' base"
    using that by (simp add: hd_py_split before_first_none)
  have same: "get_part_type t (base @ ''_mirrored'' @ rest) print = get_part_type t base print"
    unfolding get_part_type_def eq ..
  have known: "\<exists>records. get_part_type t (base @ ''_mirrored'' @ rest) print =
         Inr (first_match part_xpath, records)"
    if "\<not> sublist ''_mirrored'' base" "uid_xpath t base = Some part_xpath"
    using get_part_type_known [of t "base @ ''_mirrored'' @ rest" part_xpath print] that
    unfolding eq whole [OF that(1)] by simp
  have unknown: "get_part_type t (base @ ''_mirrored'' @ rest) print = Inl (Tixi3Exception base)"
    if "\<not> sublist ''_mirrored'' base" "uid_xpath t base = None"
    using get_part_type_unknown [of t "base @ ''_mirrored'' @ rest" print] that
    unfolding eq whole [OF that(1)] by simp
  from eq whole same known unknown show ?thesis
    by (simp del: append_assoc)
qed

theorem get_part_type_mirrored_witness:
  "hd (py_split ''_mirrored'' ''Wing1_mirrored_2'') = ''Wing1'' \<and>
   get_part_type demo_tixi ''Wing1_mirrored_2'' True = get_part_type demo_tixi ''Wing1'' True \<and>
   fst (projr (get_part_type demo_tixi ''Wing1_mirrored_2'' True)) = Some ''wing'' \<and>
   get_part_type demo_tixi ''Tail9_mirrored'' True = Inl (Tixi3Exception ''Tail9'')"
proof -
  let ?wing = "''/cpacs/vehicles/aircraft/model/wings/wing[1]''"
  have a: "\<not> sublist ''_mirrored'' ''Wing1''" "\<not> sublist ''_mirrored'' ''Tail9''"
    by code_simp+
  have b: "uid_xpath demo_tixi ''Wing1'' = Some ?wing" "uid_xpath demo_tixi ''Tail9'' = None"
    by (simp_all add: demo_tixi_def)
  have c: "first_match ?wing = Some ''wing''"
    by code_simp
  note wing = get_part_type_mirrored [of "''Wing1''" "''_2''" demo_tixi True ?wing]
  note tail = get_part_type_mirrored [of "''Tail9''" "[]" demo_tixi True "[]"]
  from wing a(1) b(1) obtain records where
    "get_part_type demo_tixi (''Wing1'' @ ''_mirrored'' @ ''_2'') True =
       Inr (first_match ?wing, records)"
    by blast
  then have typed: "fst (projr (get_part_type demo_tixi ''Wing1_mirrored_2'' True)) = Some ''wing''"
    using c by simp
  from wing a(1) have trunc: "hd (py_split ''_mirrored'' ''Wing1_mirrored_2'') = ''Wing1''"
    and same: "get_part_type demo_tixi ''Wing1_mirrored_2'' True =
      get_part_type demo_tixi ''Wing1'' True"
    by auto
  from tail a(2) b(2)
  have "get_part_type demo_tixi (''Tail9'' @ ''_mirrored'' @ []) True =
      Inl (Tixi3Exception ''Tail9'')"
    by blast
  then have gone: "get_part_type demo_tixi ''Tail9_mirrored'' True = Inl (Tixi3Exception ''Tail9'')"
    by simp
  from trunc same typed gone show ?thesis by blast
qed

section \<open>Properties of remove_file_type_in_dir\<close>

lemma unlink_entry:
  assumes "fs w d = Some (Dir names)" and "is_file w (d @ [n])"
  shows "unlink (d @ [n]) w =
    (None, w\<lparr>fs := ((fs w)(d \<mapsto> Dir (removeAll n names)))(d @ [n] := None)\<rparr>)"
  using assms
  by (auto simp: unlink_def is_file_def drop_entry_def split: option.splits node.splits)

lemma remove_loop_entries:
  assumes "fs w d = Some (Dir names)"
  shows "remove_loop types (map (\<lambda>n. d @ [n]) ns) w =
           (None, w\<lparr>fs := after_removal w d types ns names\<rparr>)"
  using assms
proof (induction ns arbitrary: w names)
  case Nil
  have "after_removal w d types [] names = fs w"
    using Nil by (auto simp: after_removal_def)
  then show ?case by simp
next
  case (Cons n ns)
  show ?case
  proof (cases "deletes w d types n")
    case False
    have same: "after_removal w d types (n # ns) names = after_removal w d types ns names"
      using False by (auto simp: after_removal_def fun_eq_iff intro!: filter_cong)
    from False have "remove_loop types (map (\<lambda>n. d @ [n]) (n # ns)) w =
        remove_loop types (map (\<lambda>n. d @ [n]) ns) w"
      by (auto simp: deletes_def)
    with Cons.IH [OF Cons.prems] same show ?thesis by simp
  next
    case True
    define w1 where "w1 = w\<lparr>fs := ((fs w)(d \<mapsto> Dir (removeAll n names)))(d @ [n] := None)\<rparr>"
    from True have isf: "is_file w (d @ [n])" and suf: "path_suffix (d @ [n]) \<in> set types"
      by (simp_all add: deletes_def)
    have step: "remove_loop types (map (\<lambda>n. d @ [n]) (n # ns)) w =
        remove_loop types (map (\<lambda>n. d @ [n]) ns) w1"
      using isf suf unlink_entry [OF Cons.prems isf] by (simp add: w1_def)
    have dir1: "fs w1 d = Some (Dir (removeAll n names))"
      by (simp add: w1_def)
    have del1: "deletes w1 d types m = (m \<noteq> n \<and> deletes w d types m)" for m
      by (auto simp: deletes_def is_file_def w1_def)
    have other: "fs w1 p = fs w p" if "p \<noteq> d" "p \<noteq> d @ [n]" for p
      using that by (simp add: w1_def)
    have gone: "fs w1 (d @ [n]) = None"
      by (simp add: w1_def)
    have "after_removal w1 d types ns (removeAll n names) p =
          after_removal w d types (n # ns) names p" for p
    proof (cases "p = d")
      case True
      have "filter (\<lambda>m. \<not> (m \<in> set ns \<and> m \<noteq> n \<and> deletes w d types m)) (removeAll n names) =
          filter (\<lambda>m. \<not> ((m = n \<or> m \<in> set ns) \<and> deletes w d types m)) names"
        unfolding removeAll_filter_not_eq filter_filter
        using \<open>deletes w d types n\<close> by (intro filter_cong) auto
      with True show ?thesis
        by (simp add: after_removal_def del1)
    next
      case False
      show ?thesis
      proof (cases "p = d @ [n]")
        case True
        with False \<open>deletes w d types n\<close> gone show ?thesis
          by (auto simp: after_removal_def del1)
      next
        case pn: False
        with False other [OF False pn] show ?thesis
          by (auto simp: after_removal_def del1)
      qed
    qed
    then have "after_removal w1 d types ns (removeAll n names) =
        after_removal w d types (n # ns) names"
      by (rule ext)
    moreover have "w1\<lparr>fs := after_removal w d types (n # ns) names\<rparr> =
        w\<lparr>fs := after_removal w d types (n # ns) names\<rparr>"
      by (simp add: w1_def)
    ultimately show ?thesis
      using Cons.IH [OF dir1] step by simp
  qed
qed

text \<open>
  C10. When the directory does not exist the call raises \<open>FileNotFoundError\<close> and the
  world is unchanged. When it is a directory with entries \<open>names\<close> the call completes, and
  in the file system it leaves: an entry that was a regular file with a suffix in the list
  is gone, from its path and from the directory's listing; every other entry (a
  subdirectory, a file with another suffix) and every path outside the directory's direct
  entries holds what it held before.
\<close>

theorem remove_file_type_in_dir_exact:
  "(fs w directory = None \<longrightarrow>
      remove_file_type_in_dir directory file_type_list w = (Some (FileNotFoundError directory), w)) \<and>
   (fs w directory = Some (Dir names) \<longrightarrow>
      remove_file_type_in_dir directory file_type_list w =
        (None,
         w\<lparr>fs := \<lambda>p.
              if p = directory then
                Some (Dir (filter (\<lambda>n. \<not> (is_file w (directory @ [n]) \<and>
                                         path_suffix (directory @ [n]) \<in> set file_type_list)) names))
              else if \<exists>n\<in>set names. p = directory @ [n] \<and> is_file w p \<and>
                                     path_suffix p \<in> set file_type_list then None
              else fs w p\<rparr>))"
proof -
  have "after_removal w directory file_type_list names names =
     (\<lambda>p. if p = directory then
                Some (Dir (filter (\<lambda>n. \<not> (is_file w (directory @ [n]) \<and>
                                         path_suffix (directory @ [n]) \<in> set file_type_list)) names))
              else if \<exists>n\<in>set names. p = directory @ [n] \<and> is_file w p \<and>
                                     path_suffix p \<in> set file_type_list then None
              else fs w p)"
    by (auto simp: after_removal_def deletes_def fun_eq_iff intro!: filter_cong)
  then show ?thesis
    using remove_loop_entries [of w directory names file_type_list names]
    by (auto simp: remove_file_type_in_dir_def exists_path_def iterdir_def)
qed

theorem remove_file_type_in_dir_exact_witness:
  "remove_file_type_in_dir [''nowhere''] [''.log''] host =
     (Some (FileNotFoundError [''nowhere'']), host) \<and>
   fst (remove_file_type_in_dir [''home''] [''.log''] host) = None \<and>
   (let w' = snd (remove_file_type_in_dir [''home''] [''.log''] host) in
      fs w' [''home''] = Some (Dir [''mesh.su2'', ''old.log'', ''in.xml'']) \<and>
      fs w' [''home'', ''run.log''] = None \<and>
      fs w' [''home'', ''mesh.su2''] = Some (File ''mesh'') \<and>
      fs w' [''home'', ''old.log''] = Some (Dir [''keep.log'']) \<and>
      fs w' [''home'', ''old.log'', ''keep.log''] = Some (File ''kept''))"
proof -
  have a: "fs host [''nowhere''] = None"
    by (simp add: host_def host_fs_def)
  have b: "fs host [''home''] = Some (Dir [''run.log'', ''mesh.su2'', ''old.log'', ''in.xml''])"
    by (simp add: host_def host_fs_def)
  note missing = remove_file_type_in_dir_exact
    [of host "[''nowhere'']" "[''.log'']", THEN conjunct1, rule_format, OF a]
  note removed = remove_file_type_in_dir_exact
    [of host "[''home'']" "[''.log'']", THEN conjunct2, rule_format, OF b]
  have suffixes: "path_suffix [''home'', ''run.log''] = ''.log''"
    "path_suffix [''home'', ''mesh.su2''] = ''.su2''"
    "path_suffix [''home'', ''old.log''] = ''.log''"
    "path_suffix [''home'', ''in.xml''] = ''.xml''"
    by (simp_all add: path_suffix_def has_suffix_def path_name_def)
  have files: "is_file host [''home'', ''run.log'']" "is_file host [''home'', ''mesh.su2'']"
    "\<not> is_file host [''home'', ''old.log'']" "is_file host [''home'', ''in.xml'']"
    by (simp_all add: is_file_def host_def host_fs_def)
  have rest: "fs host [''home'', ''mesh.su2''] = Some (File ''mesh'')"
    "fs host [''home'', ''old.log''] = Some (Dir [''keep.log''])"
    "fs host [''home'', ''old.log'', ''keep.log''] = Some (File ''kept'')"
    by (simp_all add: host_def host_fs_def)
  show ?thesis
    unfolding removed missing Let_def by (simp add: suffixes files rest)
qed

section \<open>Properties of get_results_directory\<close>

lemma os_mkdir_ok:
  "os_mkdir p w = (None, w') \<Longrightarrow> is_dir w' p \<and> cwd w' = cwd w \<and> trace w' = trace w"
  by (auto simp: os_mkdir_def is_dir_def add_entry_def split: if_splits option.splits node.splits)

lemma os_mkdir_err: "os_mkdir p w = (Some e, w') \<Longrightarrow> w' = w"
  by (auto simp: os_mkdir_def split: if_splits option.splits node.splits)

lemma path_mkdir_ok:
  "path_mkdir parents exist_ok p w = (None, w') \<Longrightarrow>
     is_dir w' p \<and> cwd w' = cwd w \<and> trace w' = trace w"
proof (induction parents exist_ok p w arbitrary: w' rule: path_mkdir.induct)
  case (1 parents exist_ok p w)
  note unfold = path_mkdir.simps [of parents exist_ok p w]
  obtain r w1 where m: "os_mkdir p w = (r, w1)" by (cases "os_mkdir p w")
  show ?case
  proof (cases r)
    case None
    with m "1.prems" have "w' = w1" by (simp add: unfold)
    with m None show ?thesis by (simp add: os_mkdir_ok)
  next
    case (Some e)
    with m have w1: "w1 = w" by (simp add: os_mkdir_err)
    show ?thesis
    proof (cases "\<exists>q. e = FileNotFoundError q")
      case True
      then obtain q where e: "e = FileNotFoundError q" by blast
      have m': "os_mkdir p w = (Some (FileNotFoundError q), w)"
        using m Some e w1 by simp
      have np: "\<not> (\<not> parents \<or> p = [])"
        using "1.prems" by (auto simp: unfold m' split: if_splits)
      obtain r2 w2 where up: "path_mkdir True True (butlast p) w = (r2, w2)"
        by (cases "path_mkdir True True (butlast p) w")
      have r2: "r2 = None"
        using "1.prems" np up by (cases r2) (auto simp: unfold m')
      have leaf: "path_mkdir False exist_ok p w2 = (None, w')"
        using "1.prems" np up r2 by (auto simp: unfold m')
      have a: "cwd w2 = cwd w \<and> trace w2 = trace w"
        using "1.IH"(1) [OF m' [symmetric] refl refl np] up r2 by simp
      have b: "is_dir w' p \<and> cwd w' = cwd w2 \<and> trace w' = trace w2"
        using "1.IH"(2) [OF m' [symmetric] refl refl np up [unfolded r2, symmetric] refl leaf]
        by simp
      from a b show ?thesis by simp
    next
      case False
      with "1.prems" m Some w1 show ?thesis
        by (cases e) (auto simp: unfold split: if_splits)
    qed
  qed
qed

text \<open>
  C6. If a call of \<open>get_results_directory\<close> for a module returns the path \<open>results_dir\<close>
  and leaves the world \<open>w'\<close>, then \<open>results_dir\<close> is a directory in \<open>w'\<close> and the working
  directory is the one before the call; a second call made in \<open>w'\<close> returns the same path,
  raises nothing, and changes nothing but the record of its import: it creates no
  directory.
\<close>

theorem get_results_directory_idempotent:
  assumes "get_results_directory inst module_name w = (Inr results_dir, w')"
  shows "get_results_directory inst module_name w' =
           (Inr results_dir, emit (ImportModule (''ceasiompy.'' @ module_name @ ''.__specs__'')) w') \<and>
         is_dir w' results_dir \<and> cwd w' = cwd w"
proof -
  let ?dotted = "''ceasiompy.'' @ module_name @ ''.__specs__''"
  let ?w1 = "emit (ImportModule ?dotted) w"
  from assms have reg: "module_name \<in> set (module_list inst)"
    by (auto simp: get_results_directory_def split: if_splits)
  from assms reg obtain rd where rd: "import_specs inst ?dotted = Inr rd"
    by (auto simp: get_results_directory_def Let_def split: sum.splits)
  from assms reg rd obtain c where c: "cwd w = Some c"
    by (auto simp: get_results_directory_def Let_def getcwd_def emit_def split: option.splits)
  from assms reg rd c have p: "results_dir = path_join c rd"
    by (auto simp: get_results_directory_def Let_def getcwd_def emit_def
        split: if_splits prod.splits option.splits)
  have made: "is_dir w' results_dir \<and> cwd w' = cwd w"
  proof (cases "is_dir ?w1 results_dir")
    case True
    with assms reg rd c p have "w' = ?w1"
      by (auto simp: get_results_directory_def Let_def getcwd_def emit_def)
    with True show ?thesis by (simp add: emit_def is_dir_def)
  next
    case False
    with assms reg rd c p have "path_mkdir True False results_dir ?w1 = (None, w')"
      by (auto simp: get_results_directory_def Let_def getcwd_def emit_def
          split: prod.splits option.splits)
    from path_mkdir_ok [OF this] show ?thesis by (simp add: emit_def)
  qed
  then have "is_dir (emit (ImportModule ?dotted) w') results_dir"
    by (simp add: emit_def is_dir_def)
  with made reg rd c p have "get_results_directory inst module_name w' =
      (Inr results_dir, emit (ImportModule ?dotted) w')"
    by (simp add: get_results_directory_def Let_def getcwd_def emit_def)
  with made show ?thesis by simp
qed

theorem get_results_directory_idempotent_witness:
  "fst (get_results_directory demo_installation ''Optimisation'' host) =
     Inr [''home'', ''Results'', ''Optimisation''] \<and>
   \<not> is_dir host [''home'', ''Results'', ''Optimisation''] \<and>
   (let w' = snd (get_results_directory demo_installation ''Optimisation'' host) in
      fst (get_results_directory demo_installation ''Optimisation'' w') =
        Inr [''home'', ''Results'', ''Optimisation''] \<and>
      fs (snd (get_results_directory demo_installation ''Optimisation'' w')) = fs w' \<and>
      is_dir w' [''home'', ''Results'', ''Optimisation''])"
proof -
  have path: "fst (get_results_directory demo_installation ''Optimisation'' host) =
      Inr [''home'', ''Results'', ''Optimisation'']"
    by (simp add: get_results_directory_def demo_installation_def host_def host_fs_def Let_def
        emit_def getcwd_def path_join_def is_dir_def path_mkdir.simps os_mkdir_def add_entry_def)
  then have first: "get_results_directory demo_installation ''Optimisation'' host =
      (Inr [''home'', ''Results'', ''Optimisation''],
       snd (get_results_directory demo_installation ''Optimisation'' host))"
    by (simp add: prod_eq_iff)
  have absent: "\<not> is_dir host [''home'', ''Results'', ''Optimisation'']"
    by (simp add: is_dir_def host_def host_fs_def)
  from get_results_directory_idempotent [OF first] path absent show ?thesis
    by (simp add: Let_def emit_def)
qed

section \<open>Properties of run_module\<close>

lemma banner_trace:
  "banner m wkdir w =
     w\<lparr>trace := trace w @ map LogInfo
        [replicate 99 CHR ''#'', ''# Run module: '' @ name m, replicate 99 CHR ''#'',
         ''Working directory: '' @ str_path wkdir,
         ''CPACS input file: '' @ str_path (cpacs_in m),
         ''CPACS output file: '' @ str_path (cpacs_out m)]\<rparr>"
  by (simp add: banner_def log_info_def emit_def Let_def)

lemma find_python_file_append:
  "find_python_file (xs @ ys) acc = find_python_file ys (find_python_file xs acc)"
  by (induction xs arbitrary: acc) auto

lemma find_python_file_none:
  "\<forall>g\<in>set files. \<not> entry_point_name (path_name g) \<Longrightarrow> find_python_file files acc = acc"
  by (induction files arbitrary: acc) (auto simp: entry_point_name_def)

lemma path_name_entry [simp]: "path_name (d @ [n]) = n"
  by (simp add: path_name_def)

lemma find_python_file_last:
  assumes "entry_point_name f" and "\<forall>g\<in>set post. \<not> entry_point_name g"
  shows "find_python_file (map (\<lambda>n. d @ [n]) (pre @ f # post)) acc = Some (path_stem (d @ [f]))"
proof -
  have "find_python_file (map (\<lambda>n. d @ [n]) post) (Some (path_stem (d @ [f]))) =
      Some (path_stem (d @ [f]))"
    using assms(2) by (intro find_python_file_none) simp
  then show ?thesis
    using assms(1) by (simp add: find_python_file_append entry_point_name_def)
qed

lemma rfind_dot_py: "rfind CHR ''.'' (stem @ ''.py'') = Some (length stem)"
  by (induction stem) simp_all

lemma path_stem_py: "stem \<noteq> [] \<Longrightarrow> path_stem (d @ [stem @ ''.py'']) = stem"
  by (simp add: path_stem_def has_suffix_def rfind_dot_py)

lemma entry_point_name_py:
  "entry_point_name (stem @ ''.py'') = (\<not> prefix ''__'' (stem @ ''.py''))"
  by (simp add: entry_point_name_def suffix_def)

text \<open>
  C4. For the module named \<open>Optimisation\<close> at an iteration above zero, \<open>run_module\<close>
  returns after writing its seven log records and nothing else happens: no import, no
  change of directory, no call of an entry point; working directory and file system
  (the documents with it) are as before. In every other case, let \<open>stem.py\<close> be the last
  entry of the module directory whose name ends in \<open>.py\<close> and does not start with \<open>__\<close>. When
  the module \<open>ceasiompy.<name>.<stem>\<close> imports, and the process is in a directory \<open>D\<close>
  and can enter \<open>wkdir\<close>: that module is imported, its \<open>main\<close> is called with the input and
  output document paths with \<open>wkdir\<close> as working directory, and what follows is the
  restoring \<open>chdir D\<close> with the outcome of \<open>main\<close> pending.
\<close>

theorem run_module_skip_rule:
  "(name m = ''Optimisation'' \<and> 0 < iteration \<longrightarrow>
      run_module inst m wkdir iteration w =
        (None,
         w\<lparr>trace := trace w @ map LogInfo
            [replicate 99 CHR ''#'', ''# Run module: '' @ name m, replicate 99 CHR ''#'',
             ''Working directory: '' @ str_path wkdir,
             ''CPACS input file: '' @ str_path (cpacs_in m),
             ''CPACS output file: '' @ str_path (cpacs_out m),
             ''Optimisation module is only run at first iteration!'']\<rparr>)) \<and>
   (\<not> (name m = ''Optimisation'' \<and> 0 < iteration) \<and>
    fs w (module_dir m) = Some (Dir (pre @ (stem @ ''.py'') # post)) \<and>
    stem \<noteq> [] \<and> \<not> prefix ''__'' (stem @ ''.py'') \<and>
    (\<forall>g\<in>set post. \<not> entry_point_name g) \<and>
    dotted = ''ceasiompy.'' @ name m @ ''.'' @ stem \<and>
    import_main inst dotted = Inr main \<and>
    cwd w = Some D \<and> is_dir w wkdir \<and>
    w3 = (banner m wkdir w)
           \<lparr>cwd := Some wkdir,
            trace := trace (banner m wkdir w) @
              [ImportModule dotted, ChdirCall wkdir, CallMain dotted (cpacs_in m) (cpacs_out m)]\<rparr> \<and>
    main (cpacs_in m) (cpacs_out m) w3 = (r, w4) \<longrightarrow>
      run_module inst m wkdir iteration w = finally_chdir D r w4)"
proof (intro conjI impI)
  assume "name m = ''Optimisation'' \<and> 0 < iteration"
  then show "run_module inst m wkdir iteration w =
        (None,
         w\<lparr>trace := trace w @ map LogInfo
            [replicate 99 CHR ''#'', ''# Run module: '' @ name m, replicate 99 CHR ''#'',
             ''Working directory: '' @ str_path wkdir,
             ''CPACS input file: '' @ str_path (cpacs_in m),
             ''CPACS output file: '' @ str_path (cpacs_out m),
             ''Optimisation module is only run at first iteration!'']\<rparr>)"
    by (simp add: run_module_def banner_trace log_info_def emit_def)
next
  assume a: "\<not> (name m = ''Optimisation'' \<and> 0 < iteration) \<and>
    fs w (module_dir m) = Some (Dir (pre @ (stem @ ''.py'') # post)) \<and>
    stem \<noteq> [] \<and> \<not> prefix ''__'' (stem @ ''.py'') \<and>
    (\<forall>g\<in>set post. \<not> entry_point_name g) \<and>
    dotted = ''ceasiompy.'' @ name m @ ''.'' @ stem \<and>
    import_main inst dotted = Inr main \<and>
    cwd w = Some D \<and> is_dir w wkdir \<and>
    w3 = (banner m wkdir w)
           \<lparr>cwd := Some wkdir,
            trace := trace (banner m wkdir w) @
              [ImportModule dotted, ChdirCall wkdir, CallMain dotted (cpacs_in m) (cpacs_out m)]\<rparr> \<and>
    main (cpacs_in m) (cpacs_out m) w3 = (r, w4)"
  then have ns: "\<not> (name m = ''Optimisation'' \<and> 0 < iteration)"
    and listing: "fs w (module_dir m) = Some (Dir (pre @ (stem @ ''.py'') # post))"
    and stem: "stem \<noteq> []" "\<not> prefix ''__'' (stem @ ''.py'')"
    and last: "\<forall>g\<in>set post. \<not> entry_point_name g"
    and dotted: "dotted = ''ceasiompy.'' @ name m @ ''.'' @ stem"
    and imported: "import_main inst dotted = Inr main"
    and start: "cwd w = Some D"
    and target: "is_dir w wkdir"
    and w3: "w3 = (banner m wkdir w)
           \<lparr>cwd := Some wkdir,
            trace := trace (banner m wkdir w) @
              [ImportModule dotted, ChdirCall wkdir, CallMain dotted (cpacs_in m) (cpacs_out m)]\<rparr>"
    and ran: "main (cpacs_in m) (cpacs_out m) w3 = (r, w4)"
    by blast+
  let ?names = "pre @ (stem @ ''.py'') # post"
  have py: "find_python_file (map (\<lambda>n. module_dir m @ [n]) ?names) None = Some stem"
    using find_python_file_last [of "stem @ ''.py''" post "module_dir m" pre None] stem last
    by (simp add: entry_point_name_py path_stem_py)
  let ?w1 = "banner m wkdir w"
  let ?w2 = "emit (ImportModule dotted) ?w1"
  have fs1: "fs ?w1 = fs w" and cwd1: "cwd ?w1 = cwd w"
    by (simp_all add: banner_trace)
  have files: "iterdir ?w1 (module_dir m) = Inr (map (\<lambda>n. module_dir m @ [n]) ?names)"
    using listing by (simp add: iterdir_def fs1)
  have "run_module inst m wkdir iteration w =
      (case iterdir ?w1 (module_dir m) of
         Inl e \<Rightarrow> (Some e, ?w1)
       | Inr files \<Rightarrow>
           (case find_python_file files None of
              None \<Rightarrow> (Some (UnboundLocalError ''python_file''), ?w1)
            | Some python_file \<Rightarrow>
                (let dotted = ''ceasiompy.'' @ name m @ ''.'' @ python_file;
                     w2 = emit (ImportModule dotted) ?w1
                 in case import_main inst dotted of
                      Inl e \<Rightarrow> (Some e, w2)
                    | Inr main \<Rightarrow>
                        change_working_dir wkdir
                          (\<lambda>w3. main (cpacs_in m) (cpacs_out m)
                                  (emit (CallMain dotted (cpacs_in m) (cpacs_out m)) w3))
                          w2)))"
    unfolding run_module_def Let_def using ns by (rule if_not_P)
  also have "\<dots> = change_working_dir wkdir
        (\<lambda>w3. main (cpacs_in m) (cpacs_out m)
                (emit (CallMain dotted (cpacs_in m) (cpacs_out m)) w3)) ?w2"
    unfolding files sum.case py option.case Let_def dotted [symmetric] imported ..
  finally have step: "run_module inst m wkdir iteration w =
      change_working_dir wkdir
        (\<lambda>w3. main (cpacs_in m) (cpacs_out m)
                (emit (CallMain dotted (cpacs_in m) (cpacs_out m)) w3)) ?w2" .
  have dir2: "is_dir ?w2 wkdir" and cwd2: "cwd ?w2 = Some D"
    using target start by (simp_all add: is_dir_def emit_def fs1 cwd1)
  have enter: "chdir wkdir ?w2 =
      (None, ?w2\<lparr>cwd := Some wkdir, trace := trace ?w2 @ [ChdirCall wkdir]\<rparr>)"
    using dir2 by (rule chdir_dir)
  have entered: "emit (CallMain dotted (cpacs_in m) (cpacs_out m))
      (?w2\<lparr>cwd := Some wkdir, trace := trace ?w2 @ [ChdirCall wkdir]\<rparr>) = w3"
    unfolding w3 by (simp add: emit_def)
  show "run_module inst m wkdir iteration w = finally_chdir D r w4"
    unfolding step using ran cwd2 enter entered
    by (simp add: change_working_dir_def getcwd_def)
qed


theorem run_module_skip_rule_witness:
  "run_module demo_installation demo_module [''tmp''] 2 host =
     (None,
      host\<lparr>trace := map LogInfo
         [replicate 99 CHR ''#'', ''# Run module: Optimisation'', replicate 99 CHR ''#'',
          ''Working directory: /tmp'',
          ''CPACS input file: /home/in.xml'',
          ''CPACS output file: /home/out.xml'',
          ''Optimisation module is only run at first iteration!'']\<rparr>) \<and>
   fst (run_module demo_installation demo_module [''tmp''] 0 host) = None \<and>
   (let w' = snd (run_module demo_installation demo_module [''tmp''] 0 host) in
      cwd w' = Some [''home''] \<and>
      fs w' [''home'', ''out.xml''] = Some (File ''<cpacs/>'') \<and>
      drop 6 (trace w') =
        [ImportModule ''ceasiompy.Optimisation.optimisation'',
         ChdirCall [''tmp''],
         CallMain ''ceasiompy.Optimisation.optimisation'' [''home'', ''in.xml'']
           [''home'', ''out.xml''],
         ChdirCall [''home'']])"
proof -
  let ?dotted = "''ceasiompy.Optimisation.optimisation''"
  let ?names = "[''__init__.py'', ''optimisation.py'', ''__specs__.py'']"
  let ?w3 = "(banner demo_module [''tmp''] host)
           \<lparr>cwd := Some [''tmp''],
            trace := trace (banner demo_module [''tmp''] host) @
              [ImportModule ?dotted, ChdirCall [''tmp''],
               CallMain ?dotted (cpacs_in demo_module) (cpacs_out demo_module)]\<rparr>"
  let ?w4 = "?w3\<lparr>fs := add_entry [''home'', ''out.xml''] (File ''<cpacs/>'') (fs ?w3)\<rparr>"
  have skip: "name demo_module = ''Optimisation'' \<and> 0 < (2::int)"
    by (simp add: demo_module_def)
  have last: "\<forall>g\<in>set [''__specs__.py'']. \<not> entry_point_name g"
    and first: "\<not> prefix ''__'' (''optimisation'' @ ''.py'')"
    by code_simp+
  have copied: "copy_main (cpacs_in demo_module) (cpacs_out demo_module) ?w3 = (None, ?w4)"
    by (simp add: copy_main_def demo_module_def banner_trace host_def host_fs_def)
  have run: "\<not> (name demo_module = ''Optimisation'' \<and> 0 < (0::int)) \<and>
      fs host (module_dir demo_module) =
        Some (Dir ([''__init__.py''] @ (''optimisation'' @ ''.py'') # [''__specs__.py''])) \<and>
      ''optimisation'' \<noteq> [] \<and> \<not> prefix ''__'' (''optimisation'' @ ''.py'') \<and>
      (\<forall>g\<in>set [''__specs__.py'']. \<not> entry_point_name g) \<and>
      ?dotted = ''ceasiompy.'' @ name demo_module @ ''.'' @ ''optimisation'' \<and>
      import_main demo_installation ?dotted = Inr copy_main \<and>
      cwd host = Some [''home''] \<and> is_dir host [''tmp''] \<and> ?w3 = ?w3 \<and>
      copy_main (cpacs_in demo_module) (cpacs_out demo_module) ?w3 = (None, ?w4)"
    using last first copied
    by (simp add: demo_module_def demo_installation_def host_def host_fs_def is_dir_def)
  note skipped = run_module_skip_rule
    [where m = demo_module and iteration = 2 and inst = demo_installation and wkdir = "[''tmp'']"
       and w = host, THEN conjunct1, rule_format, OF skip]
  note ran = run_module_skip_rule
    [where m = demo_module and iteration = 0 and inst = demo_installation and wkdir = "[''tmp'']"
       and w = host and pre = "[''__init__.py'']" and stem = "''optimisation''"
       and post = "[''__specs__.py'']" and dotted = ?dotted
       and main = copy_main and D = "[''home'']" and ?w3.0 = ?w3 and r = None and ?w4.0 = ?w4,
      THEN conjunct2, rule_format, OF run]
  have a: "run_module demo_installation demo_module [''tmp''] 2 host =
     (None,
      host\<lparr>trace := map LogInfo
         [replicate 99 CHR ''#'', ''# Run module: Optimisation'', replicate 99 CHR ''#'',
          ''Working directory: /tmp'',
          ''CPACS input file: /home/in.xml'',
          ''CPACS output file: /home/out.xml'',
          ''Optimisation module is only run at first iteration!'']\<rparr>)"
    unfolding skipped by (simp add: demo_module_def str_path_def host_def)
  have b: "finally_chdir [''home''] None ?w4 =
      (None, ?w4\<lparr>cwd := Some [''home''], trace := trace ?w4 @ [ChdirCall [''home'']]\<rparr>)"
    by (simp add: finally_chdir_def chdir_def emit_def add_entry_def banner_trace
        host_def host_fs_def)
  have c: "fs ?w4 [''home'', ''out.xml''] = Some (File ''<cpacs/>'')"
    by (simp add: add_entry_def split: option.splits node.splits)
  from a show ?thesis
    unfolding ran b Let_def using c by (simp add: banner_trace host_def demo_module_def)
qed


section \<open>Properties of run_software\<close>

lemma get_install_path_permissive:
  "get_install_path software_name False w =
     (Inr (which w software_name),
      case which w software_name of
        Some install_path \<Rightarrow>
          log_info (software_name @ '' is installed at: '' @ str_path install_path) w
      | None \<Rightarrow> log_warning (software_name @ '' is not installed on your computer!'') w)"
  by (simp add: get_install_path_def Let_def split: option.splits)

lemma which_logged [simp]:
  "which (log_info msg w) = which w" "which (log_warning msg w) = which w"
  "platform (log_info msg w) = platform w" "platform (log_warning msg w) = platform w"
  by (simp_all add: log_info_def log_warning_def emit_def)

lemma which_after_install [simp]:
  "which (snd (get_install_path software_name False w)) = which w"
  "platform (snd (get_install_path software_name False w)) = platform w"
  by (simp_all add: get_install_path_permissive split: option.splits)

lemma xvfb_wrap_cong: "platform w' = platform w \<Longrightarrow> xvfb_wrap s w' cmd = xvfb_wrap s w cmd"
  by (simp add: xvfb_wrap_def)

lemma str_int_2: "str_int 2 = ''2''"
  by code_simp

lemma logged_state [simp]:
  "fs (log_info msg w) = fs w" "fs (log_warning msg w) = fs w"
  "cwd (log_info msg w) = cwd w" "cwd (log_warning msg w) = cwd w"
  by (simp_all add: log_info_def log_warning_def emit_def)

lemma state_after_install [simp]:
  "fs (snd (get_install_path software_name False w)) = fs w"
  "cwd (snd (get_install_path software_name False w)) = cwd w"
  by (simp_all add: get_install_path_permissive split: option.splits)

lemma open_w_fresh:
  assumes "\<not> is_dir w p" and "is_dir w (butlast p)"
  shows "fst (open_w p w) = None \<and> cwd (snd (open_w p w)) = cwd w \<and>
         trace (snd (open_w p w)) = trace w"
  using assms
  by (auto simp: open_w_def is_dir_def split: option.splits node.splits)

lemma launch_announce:
  "launch spawn software_name nb_cpu wkdir logfile cmd w =
     (case change_working_dir wkdir
             (\<lambda>w. case open_w logfile w of
                     (Some e, w') \<Rightarrow> (Some e, w')
                   | (None, w') \<Rightarrow> subprocess_call spawn cmd logfile w')
             (announce software_name nb_cpu wkdir logfile cmd w) of
        (Some e, w') \<Rightarrow> (Some e, w')
      | (None, w') \<Rightarrow> (None, log_info (''>>> '' @ software_name @ '' End'') w'))"
  by (simp add: launch_def announce_def Let_def log_info_def emit_def)

lemma launch_runs:
  assumes "cwd w = Some D" and "is_dir w wkdir" and "\<not> is_dir w (wkdir @ [leaf])"
    and "cmd = map Some argv"
    and "wl = announce software_name nb_cpu wkdir (wkdir @ [leaf]) cmd w"
    and "w_cd = wl\<lparr>cwd := Some wkdir, trace := trace wl @ [ChdirCall wkdir]\<rparr>"
    and "w_in = emit (SubprocessCall argv (Some wkdir)) (snd (open_w (wkdir @ [leaf]) w_cd))"
    and "spawn argv (wkdir @ [leaf]) w_in = (r, w_sp)"
  shows "fst (open_w (wkdir @ [leaf]) w_cd) = None \<and> cwd w_in = Some wkdir \<and>
     launch spawn software_name nb_cpu wkdir (wkdir @ [leaf]) cmd w =
       (case finally_chdir D r w_sp of
          (Some e, w') \<Rightarrow> (Some e, w')
        | (None, w') \<Rightarrow> (None, log_info (''>>> '' @ software_name @ '' End'') w'))"
proof -
  let ?logfile = "wkdir @ [leaf]"
  have args: "None \<notin> set cmd" "map the cmd = argv"
    using assms(4) by (simp_all add: comp_def)
  have wl: "cwd wl = Some D" "is_dir wl wkdir"
    using assms(1,2,5) by (simp_all add: announce_def is_dir_def)
  have enter: "chdir wkdir wl = (None, w_cd)"
    using wl(2) assms(6) by (simp add: chdir_dir)
  have "\<not> is_dir w_cd ?logfile" "is_dir w_cd (butlast ?logfile)"
    using assms(2,3,5,6) by (simp_all add: announce_def is_dir_def)
  from open_w_fresh [OF this]
  have opened: "fst (open_w ?logfile w_cd) = None"
    and cwd_open: "cwd (snd (open_w ?logfile w_cd)) = Some wkdir"
    using assms(6) by simp_all
  have body: "(case open_w ?logfile w_cd of
                 (Some e, w') \<Rightarrow> (Some e, w')
               | (None, w') \<Rightarrow> subprocess_call spawn cmd ?logfile w') = (r, w_sp)"
    using opened cwd_open args assms(7,8)
    by (cases "open_w ?logfile w_cd") (simp add: subprocess_call_def)
  have "change_working_dir wkdir
          (\<lambda>w. case open_w ?logfile w of
                  (Some e, w') \<Rightarrow> (Some e, w')
                | (None, w') \<Rightarrow> subprocess_call spawn cmd ?logfile w') wl =
        finally_chdir D r w_sp"
    using wl(1) enter body by (simp add: change_working_dir_def getcwd_def)
  then have "launch spawn software_name nb_cpu wkdir ?logfile cmd w =
       (case finally_chdir D r w_sp of
          (Some e, w') \<Rightarrow> (Some e, w')
        | (None, w') \<Rightarrow> (None, log_info (''>>> '' @ software_name @ '' End'') w'))"
    unfolding launch_announce assms(5) [symmetric] by simp
  moreover have "cwd w_in = Some wkdir"
    using cwd_open assms(7) by (simp add: emit_def)
  ultimately show ?thesis using opened by simp
qed

lemma run_software_assembly:
  "let w0 = log_info (str_int nb_cpu @ '' cpu over '' @
               (case cpu_count w of None \<Rightarrow> ''None'' | Some n \<Rightarrow> str_int n) @
               '' will be used for this calculation.'') w;
       w1 = snd (get_install_path software_name False w0);
       logfile = wkdir @ [''logfile_'' @ software_name @ ''.log''];
       tool = map_option str_path (which w software_name);
       launcher = [Some (str_path mpi), Some ''-np'', Some (str_int nb_cpu)]
   in (which w ''mpirun'' = Some mpi \<longrightarrow>
         fst (mpi_prefix True nb_cpu w1) = Inr launcher \<and>
         run_software spawn software_name arguments wkdir True nb_cpu w =
           launch spawn software_name nb_cpu wkdir logfile
             (xvfb_wrap software_name w (launcher @ tool # map Some arguments))
             (log_info (''mpirun is installed at: '' @ str_path mpi) w1)) \<and>
      (which w ''mpirun'' = None \<longrightarrow>
         fst (mpi_prefix True nb_cpu w1) = Inr [] \<and>
         run_software spawn software_name arguments wkdir True nb_cpu w =
           launch spawn software_name nb_cpu wkdir logfile
             (xvfb_wrap software_name w (tool # map Some arguments))
             (log_warning ''mpirun is not installed on your computer!'' w1) \<and>
         run_software spawn software_name arguments wkdir False nb_cpu w =
           launch spawn software_name nb_cpu wkdir logfile
             (xvfb_wrap software_name w (tool # map Some arguments)) w1)"
proof -
  define w0 where "w0 = log_info (str_int nb_cpu @ '' cpu over '' @
               (case cpu_count w of None \<Rightarrow> ''None'' | Some n \<Rightarrow> str_int n) @
               '' will be used for this calculation.'') w"
  define w1 where "w1 = snd (get_install_path software_name False w0)"
  have tool: "get_install_path software_name False w0 = (Inr (which w software_name), w1)"
    unfolding w1_def by (simp add: get_install_path_permissive w0_def)
  have w1: "which w1 = which w" "platform w1 = platform w"
    by (simp_all add: w1_def w0_def)
  have found: "mpi_prefix True nb_cpu w1 =
      (Inr [Some (str_path mpi), Some ''-np'', Some (str_int nb_cpu)],
       log_info (''mpirun is installed at: '' @ str_path mpi) w1)"
    if "which w ''mpirun'' = Some mpi"
    using that by (simp add: mpi_prefix_def get_install_path_permissive w1)
  have missing: "mpi_prefix True nb_cpu w1 =
      (Inr [], log_warning ''mpirun is not installed on your computer!'' w1)"
    if "which w ''mpirun'' = None"
    using that by (simp add: mpi_prefix_def get_install_path_permissive w1)
  have plain: "mpi_prefix False nb_cpu w1 = (Inr [], w1)"
    by (simp add: mpi_prefix_def)
  have run: "run_software spawn software_name arguments wkdir with_mpi nb_cpu w =
      launch spawn software_name nb_cpu wkdir (wkdir @ [''logfile_'' @ software_name @ ''.log''])
        (xvfb_wrap software_name w
           (prefix_part @ map_option str_path (which w software_name) # map Some arguments)) w2"
    if "mpi_prefix with_mpi nb_cpu w1 = (Inr prefix_part, w2)" "platform w2 = platform w"
    for with_mpi prefix_part w2
    unfolding run_software_def Let_def w0_def [symmetric] tool prod.case sum.case that(1)
    by (simp add: xvfb_wrap_cong [OF that(2)])
  show ?thesis
    unfolding Let_def w0_def [symmetric] w1_def [symmetric]
    using run [OF found] run [OF missing] run [OF plain] found missing w1
    by simp
qed



lemma run_software_unwrapped_runs:
  assumes none: "which w ''mpirun'' = None"
    and tool: "which w software_name = Some tool_path"
    and start: "cwd w = Some D"
    and target: "is_dir w wkdir"
    and logfile: "logfile = wkdir @ [''logfile_'' @ software_name @ ''.log'']"
    and free: "\<not> is_dir w logfile"
    and argv: "argv =
        (if software_name \<in> set [''sumo'', ''dwfsumo''] \<and> platform w = ''linux''
         then [''xvfb-run''] else []) @ str_path tool_path # arguments"
    and w0: "w0 = log_info (str_int nb_cpu @ '' cpu over '' @
               (case cpu_count w of None \<Rightarrow> ''None'' | Some n \<Rightarrow> str_int n) @
               '' will be used for this calculation.'') w"
    and w1: "w1 = snd (get_install_path software_name False w0)"
    and wl: "wl = announce software_name nb_cpu wkdir logfile (map Some argv)
               (log_warning ''mpirun is not installed on your computer!'' w1)"
    and w_cd: "w_cd = wl\<lparr>cwd := Some wkdir, trace := trace wl @ [ChdirCall wkdir]\<rparr>"
    and w_in: "w_in = emit (SubprocessCall argv (Some wkdir)) (snd (open_w logfile w_cd))"
    and child: "spawn argv logfile w_in = (r, w_sp)"
  shows "fst (open_w logfile w_cd) = None \<and> cwd w_in = Some wkdir \<and>
     run_software spawn software_name arguments wkdir True nb_cpu w =
       (case finally_chdir D r w_sp of
          (Some e, w') \<Rightarrow> (Some e, w')
        | (None, w') \<Rightarrow> (None, log_info (''>>> '' @ software_name @ '' End'') w')) \<and>
     (r = None \<and> is_dir w_sp D \<longrightarrow>
        run_software spawn software_name arguments wkdir True nb_cpu w =
          (None, log_info (''>>> '' @ software_name @ '' End'')
                   (w_sp\<lparr>cwd := Some D, trace := trace w_sp @ [ChdirCall D]\<rparr>)))"
proof -
  let ?w = "log_warning ''mpirun is not installed on your computer!'' w1"
  have cmd: "xvfb_wrap software_name w
      (map_option str_path (which w software_name) # map Some arguments) = map Some argv"
    by (simp add: xvfb_wrap_def tool argv)
  have run: "run_software spawn software_name arguments wkdir True nb_cpu w =
      launch spawn software_name nb_cpu wkdir logfile (map Some argv) ?w"
    using run_software_assembly [of nb_cpu w software_name wkdir tool_path spawn arguments] none
    unfolding Let_def w0 [symmetric] w1 [symmetric] logfile [symmetric] cmd by blast
  have state: "cwd ?w = Some D" "is_dir ?w wkdir"
      "\<not> is_dir ?w (wkdir @ [''logfile_'' @ software_name @ ''.log''])"
    using start target free by (simp_all add: w1 w0 is_dir_def logfile)
  note runs = launch_runs [where spawn = spawn, OF state refl wl [unfolded logfile] w_cd
      w_in [unfolded logfile] child [unfolded logfile], folded logfile]
  have leave: "finally_chdir D r w_sp = (r, w_sp\<lparr>cwd := Some D, trace := trace w_sp @ [ChdirCall D]\<rparr>)"
    if "is_dir w_sp D"
    using that by (simp add: finally_chdir_def chdir_dir)
  from runs run leave show ?thesis by auto
qed

text \<open>
  C5. \<open>w1\<close> is the world after the first log record and the lookup of the tool, \<open>tool\<close>
  the command-line element for the tool. With \<open>with_mpi\<close> set: when \<open>mpirun\<close> resolves to
  \<open>mpi\<close>, the MPI step yields \<open>mpi -np nb_cpu\<close> and the command launched is that prefix,
  then the tool, then the arguments (under \<open>xvfb-run\<close> for the tools that need it). When
  \<open>mpirun\<close> does not resolve, the MPI step raises nothing and yields no prefix, and the
  run is the launch of the same command, in the same way, as the run with \<open>with_mpi\<close>
  false; the only difference is the warning record that \<open>mpirun\<close> is not installed.

  That launch runs the tool: when \<open>mpirun\<close> does not resolve and the tool does, the process
  is in a directory \<open>D\<close>, \<open>wkdir\<close> is a directory and the logfile path is not one, the
  logfile is opened and the child process is started in \<open>wkdir\<close> with the argument vector
  \<open>argv\<close>, the tool and the arguments with no launcher before them. Nothing is raised
  before that, and the run's outcome is the outcome of the child's start followed by the
  restoring \<open>chdir D\<close>: when the start raises nothing and \<open>D\<close> is still a directory, the run
  raises nothing.
\<close>

theorem run_software_mpi_prefix:
  "(let w0 = log_info (str_int nb_cpu @ '' cpu over '' @
               (case cpu_count w of None \<Rightarrow> ''None'' | Some n \<Rightarrow> str_int n) @
               '' will be used for this calculation.'') w;
       w1 = snd (get_install_path software_name False w0);
       logfile = wkdir @ [''logfile_'' @ software_name @ ''.log''];
       tool = map_option str_path (which w software_name);
       launcher = [Some (str_path mpi), Some ''-np'', Some (str_int nb_cpu)]
   in (which w ''mpirun'' = Some mpi \<longrightarrow>
         fst (mpi_prefix True nb_cpu w1) = Inr launcher \<and>
         run_software spawn software_name arguments wkdir True nb_cpu w =
           launch spawn software_name nb_cpu wkdir logfile
             (xvfb_wrap software_name w (launcher @ tool # map Some arguments))
             (log_info (''mpirun is installed at: '' @ str_path mpi) w1)) \<and>
      (which w ''mpirun'' = None \<longrightarrow>
         fst (mpi_prefix True nb_cpu w1) = Inr [] \<and>
         run_software spawn software_name arguments wkdir True nb_cpu w =
           launch spawn software_name nb_cpu wkdir logfile
             (xvfb_wrap software_name w (tool # map Some arguments))
             (log_warning ''mpirun is not installed on your computer!'' w1) \<and>
         run_software spawn software_name arguments wkdir False nb_cpu w =
           launch spawn software_name nb_cpu wkdir logfile
             (xvfb_wrap software_name w (tool # map Some arguments)) w1)) \<and>
   (which w ''mpirun'' = None \<and> which w software_name = Some tool_path \<and>
    cwd w = Some D \<and> is_dir w wkdir \<and>
    logfile = wkdir @ [''logfile_'' @ software_name @ ''.log''] \<and> \<not> is_dir w logfile \<and>
    argv = (if software_name \<in> set [''sumo'', ''dwfsumo''] \<and> platform w = ''linux''
            then [''xvfb-run''] else []) @ str_path tool_path # arguments \<and>
    w0 = log_info (str_int nb_cpu @ '' cpu over '' @
               (case cpu_count w of None \<Rightarrow> ''None'' | Some n \<Rightarrow> str_int n) @
               '' will be used for this calculation.'') w \<and>
    w1 = snd (get_install_path software_name False w0) \<and>
    wl = announce software_name nb_cpu wkdir logfile (map Some argv)
           (log_warning ''mpirun is not installed on your computer!'' w1) \<and>
    w_cd = wl\<lparr>cwd := Some wkdir, trace := trace wl @ [ChdirCall wkdir]\<rparr> \<and>
    w_in = emit (SubprocessCall argv (Some wkdir)) (snd (open_w logfile w_cd)) \<and>
    spawn argv logfile w_in = (r, w_sp) \<longrightarrow>
      fst (open_w logfile w_cd) = None \<and> cwd w_in = Some wkdir \<and>
      run_software spawn software_name arguments wkdir True nb_cpu w =
        (case finally_chdir D r w_sp of
           (Some e, w') \<Rightarrow> (Some e, w')
         | (None, w') \<Rightarrow> (None, log_info (''>>> '' @ software_name @ '' End'') w')) \<and>
      (r = None \<and> is_dir w_sp D \<longrightarrow>
         run_software spawn software_name arguments wkdir True nb_cpu w =
           (None, log_info (''>>> '' @ software_name @ '' End'')
                    (w_sp\<lparr>cwd := Some D, trace := trace w_sp @ [ChdirCall D]\<rparr>))))"
  (is "?assembly \<and> (?unresolved \<longrightarrow> ?runs)")
proof (rule conjI)
  show ?assembly
    by (rule run_software_assembly)
  show "?unresolved \<longrightarrow> ?runs"
    by (intro impI, elim conjE, rule run_software_unwrapped_runs [where spawn = spawn];
        assumption)
qed


theorem run_software_mpi_prefix_witness:
  "fst (run_software echo_spawn ''avl'' [''case.run''] [''home''] True 2 host) = None \<and>
   SubprocessCall [''/usr/bin/avl'', ''case.run''] (Some [''home''])
     \<in> set (trace (snd (run_software echo_spawn ''avl'' [''case.run''] [''home''] True 2 host))) \<and>
   fs (snd (run_software echo_spawn ''avl'' [''case.run''] [''home''] True 2 host))
     [''home'', ''logfile_avl.log''] = Some (File ''hello'') \<and>
   cwd (snd (run_software echo_spawn ''avl'' [''case.run''] [''home''] True 2 host)) =
     Some [''home''] \<and>
   SubprocessCall [''/usr/bin/mpirun'', ''-np'', ''2'', ''/usr/bin/avl'', ''case.run'']
       (Some [''home''])
     \<in> set (trace (snd (run_software echo_spawn ''avl'' [''case.run''] [''home''] True 2
           (host\<lparr>which := (which host)(''mpirun'' \<mapsto> [''usr'', ''bin'', ''mpirun''])\<rparr>))))"
proof -
  let ?mpi_host = "host\<lparr>which := (which host)(''mpirun'' \<mapsto> [''usr'', ''bin'', ''mpirun''])\<rparr>"
  let ?logfile = "[''home'', ''logfile_avl.log'']"
  let ?argv = "[''/usr/bin/avl'', ''case.run'']"
  let ?w0 = "log_info (str_int 2 @ '' cpu over '' @
               (case cpu_count host of None \<Rightarrow> ''None'' | Some n \<Rightarrow> str_int n) @
               '' will be used for this calculation.'') host"
  let ?w1 = "snd (get_install_path ''avl'' False ?w0)"
  let ?wl = "announce ''avl'' 2 [''home''] ?logfile (map Some ?argv)
               (log_warning ''mpirun is not installed on your computer!'' ?w1)"
  let ?w_cd = "?wl\<lparr>cwd := Some [''home''], trace := trace ?wl @ [ChdirCall [''home'']]\<rparr>"
  let ?w_in = "emit (SubprocessCall ?argv (Some [''home''])) (snd (open_w ?logfile ?w_cd))"
  let ?w_sp = "?w_in\<lparr>fs := (fs ?w_in)(?logfile \<mapsto> File ''hello'')\<rparr>"
  have some: "which ?mpi_host ''mpirun'' = Some [''usr'', ''bin'', ''mpirun'']"
    by simp
  have h: "which host ''mpirun'' = None \<and> which host ''avl'' = Some [''usr'', ''bin'', ''avl''] \<and>
    cwd host = Some [''home''] \<and> is_dir host [''home''] \<and>
    ?logfile = [''home''] @ [''logfile_'' @ ''avl'' @ ''.log''] \<and> \<not> is_dir host ?logfile \<and>
    ?argv = (if ''avl'' \<in> set [''sumo'', ''dwfsumo''] \<and> platform host = ''linux''
            then [''xvfb-run''] else []) @ str_path [''usr'', ''bin'', ''avl''] # [''case.run''] \<and>
    ?w0 = ?w0 \<and> ?w1 = ?w1 \<and> ?wl = ?wl \<and> ?w_cd = ?w_cd \<and> ?w_in = ?w_in \<and>
    echo_spawn ?argv ?logfile ?w_in = (None, ?w_sp)"
    by (simp add: host_def host_fs_def is_dir_def str_path_def echo_spawn_def)
  note runs = run_software_mpi_prefix
    [where w = host and software_name = "''avl''" and tool_path = "[''usr'', ''bin'', ''avl'']"
       and D = "[''home'']" and wkdir = "[''home'']" and logfile = ?logfile and argv = ?argv
       and arguments = "[''case.run'']" and nb_cpu = 2 and ?w0.0 = ?w0 and ?w1.0 = ?w1
       and wl = ?wl and w_cd = ?w_cd and w_in = ?w_in and spawn = echo_spawn and r = None
       and w_sp = ?w_sp, THEN conjunct2, rule_format, OF h]
  have home: "is_dir ?w_sp [''home'']"
    by (simp add: is_dir_def emit_def open_w_def add_entry_def announce_def
        get_install_path_permissive host_def host_fs_def split: option.splits node.splits)
  from runs home
  have run: "run_software echo_spawn ''avl'' [''case.run''] [''home''] True 2 host =
      (None, log_info (''>>> '' @ ''avl'' @ '' End'')
               (?w_sp\<lparr>cwd := Some [''home''], trace := trace ?w_sp @ [ChdirCall [''home'']]\<rparr>))"
    by blast
  have a: "fst (run_software echo_spawn ''avl'' [''case.run''] [''home''] True 2 host) = None"
    and b: "SubprocessCall ?argv (Some [''home''])
       \<in> set (trace (snd (run_software echo_spawn ''avl'' [''case.run''] [''home''] True 2 host)))"
    and c: "fs (snd (run_software echo_spawn ''avl'' [''case.run''] [''home''] True 2 host))
       ?logfile = Some (File ''hello'')"
    and d: "cwd (snd (run_software echo_spawn ''avl'' [''case.run''] [''home''] True 2 host)) =
       Some [''home'']"
    unfolding run by (simp_all add: log_info_def emit_def)
  note wrapped = run_software_mpi_prefix
    [where w = ?mpi_host and software_name = "''avl''" and wkdir = "[''home'']"
       and mpi = "[''usr'', ''bin'', ''mpirun'']" and arguments = "[''case.run'']" and nb_cpu = 2
       and spawn = echo_spawn, THEN conjunct1, unfolded Let_def,
      THEN conjunct1, rule_format, OF some, THEN conjunct2]
  have e: "SubprocessCall [''/usr/bin/mpirun'', ''-np'', ''2'', ''/usr/bin/avl'', ''case.run'']
       (Some [''home''])
     \<in> set (trace (snd (run_software echo_spawn ''avl'' [''case.run''] [''home''] True 2 ?mpi_host)))"
    unfolding wrapped
    by (simp add: launch_def Let_def change_working_dir_def finally_chdir_def chdir_def getcwd_def
        open_w_def add_entry_def subprocess_call_def echo_spawn_def xvfb_wrap_def
        get_install_path_permissive log_info_def log_warning_def emit_def str_path_def
        host_def host_fs_def str_int_2)
  from a b c d e show ?thesis by blast
qed


end
